theory Spec2Isabelle
  imports Main "HOL-Library.Word" "HOL-Library.Option_ord"
begin

section \<open>The observer's node database (cmd/observer/database)\<close>

text \<open>
  A shallow embedding of \<^verbatim>\<open>db.go\<close> and \<^verbatim>\<open>db_sqlite.go\<close>. The table \<^verbatim>\<open>nodes\<close> is a list
  of rows in insertion order; every SQL statement of \<^verbatim>\<open>db_sqlite.go\<close> is a function on
  that list, and every method of \<^verbatim>\<open>DBSQLite\<close> is a function that takes the table and
  returns its result together with the table it leaves behind.
\<close>

subsection \<open>Types of db.go\<close>

type_synonym NodeID = string

text \<open>\<^verbatim>\<open>net.IP\<close> is a byte slice: \<open>None\<close> is the nil slice.\<close>

record NodeAddr1 =
  IP :: "8 word list option"
  PortDisc :: "16 word"
  PortRLPx :: "16 word"

record NodeAddr = NodeAddr1 +
  IPv6 :: NodeAddr1

subsection \<open>Time\<close>

text \<open>
  A \<^verbatim>\<open>time.Time\<close> is the number of nanoseconds since the Unix epoch, a
  \<^verbatim>\<open>time.Duration\<close> a signed 64-bit number of nanoseconds, so that \<^verbatim>\<open>-d\<close> wraps
  at the least duration as it does in Go. Every call of \<^verbatim>\<open>time.Now()\<close> in the source
  is an argument of the method that makes it.
\<close>

type_synonym Time = int
type_synonym Duration = "64 word"

definition Add :: "Time \<Rightarrow> Duration \<Rightarrow> Time" where
  "Add t d = t + sint d"

definition Unix :: "Time \<Rightarrow> int" where
  "Unix t = t div 1000000000"

definition Time_Unix :: "int \<Rightarrow> Time" where
  \<comment> \<open>\<^verbatim>\<open>time.Unix(sec, 0)\<close>\<close>
  "Time_Unix sec = sec * 1000000000"

subsection \<open>Errors and contexts\<close>

datatype error =
    ContextDone
  | ScanOutOfRange
  | ErrorString string
  | Wrap string error

text \<open>
  A \<^verbatim>\<open>context.Context\<close> either never ends or ends (by cancellation or deadline) after
  a number of further steps of the method it was handed to; a step is a call into the
  storage layer or into another method. A storage call under a context that has ended
  fails with the context's error and does nothing. The end of the context is the one
  storage failure of the model: a statement that the storage layer accepts is executed.
\<close>

datatype Context = Background | DoneAfter nat

fun Done :: "Context \<Rightarrow> bool" where
  "Done Background = False"
| "Done (DoneAfter n) = (n = 0)"

fun after_call :: "Context \<Rightarrow> Context" where
  "after_call Background = Background"
| "after_call (DoneAfter n) = DoneAfter (n - 1)"

subsection \<open>The table nodes\<close>

text \<open>
  One row of \<^verbatim>\<open>sqlCreateSchema\<close>. A nullable column is an \<open>option\<close> with \<open>None\<close> for
  NULL; INTEGER columns are integers; \<^verbatim>\<open>compat_fork\<close> holds a bound Go \<^verbatim>\<open>bool\<close>, which
  SQLite stores as 1 or 0.
\<close>

record node =
  node_id :: NodeID
  ip :: "string option"
  port_disc :: "int option"
  port_rlpx :: "int option"
  ip_v6 :: "string option"
  ip_v6_port_disc :: "int option"
  ip_v6_port_rlpx :: "int option"
  addr_updated :: int
  ping_try :: int
  compat_fork :: "int option"
  compat_fork_updated :: "int option"
  client_id :: "string option"
  handshake_err :: "string option"
  handshake_try :: int
  handshake_updated :: "int option"
  neighbor_keys :: "string option"
  taken_last :: "int option"

type_synonym nodes = "node list"

definition primary_key :: "nodes \<Rightarrow> bool" where
  \<comment> \<open>\<^verbatim>\<open>id TEXT PRIMARY KEY\<close>\<close>
  "primary_key s = distinct (map node_id s)"

definition find_node :: "NodeID \<Rightarrow> nodes \<Rightarrow> node option" where
  \<comment> \<open>\<^verbatim>\<open>FROM nodes WHERE id = ?\<close>, read by \<^verbatim>\<open>QueryRowContext\<close>: the first such row\<close>
  "find_node i s = find (\<lambda>r. node_id r = i) s"

definition sql_update :: "(node \<Rightarrow> bool) \<Rightarrow> (node \<Rightarrow> node) \<Rightarrow> nodes \<Rightarrow> nodes" where
  \<comment> \<open>\<^verbatim>\<open>UPDATE nodes SET ... WHERE ...\<close>\<close>
  "sql_update cond set_cols s = map (\<lambda>r. if cond r then set_cols r else r) s"

subsection \<open>The storage calls of database/sql\<close>

definition ExecContext :: "Context \<Rightarrow> (nodes \<Rightarrow> nodes) \<Rightarrow> nodes \<Rightarrow> error option \<times> nodes" where
  "ExecContext ctx stmt s = (if Done ctx then (Some ContextDone, s) else (None, stmt s))"

definition QueryContext :: "Context \<Rightarrow> (nodes \<Rightarrow> 'a) \<Rightarrow> nodes \<Rightarrow> error + 'a" where
  "QueryContext ctx query s = (if Done ctx then Inl ContextDone else Inr (query s))"

text \<open>
  A transaction collects the statements executed on its handle; \<^verbatim>\<open>Commit\<close> applies
  them, \<^verbatim>\<open>Rollback\<close> drops them. A statement executed on the \<^verbatim>\<open>sql.DB\<close> handle
  itself (\<open>ExecContext\<close>, \<open>QueryContext\<close> above) runs on a connection of its own, outside
  every open transaction, and is committed when it returns.
\<close>

record Tx =
  tx_stmts :: "(nodes \<Rightarrow> nodes) list"

definition BeginTx :: "Context \<Rightarrow> error + Tx" where
  "BeginTx ctx = (if Done ctx then Inl ContextDone else Inr \<lparr>tx_stmts = []\<rparr>)"

definition Commit :: "Context \<Rightarrow> Tx \<Rightarrow> nodes \<Rightarrow> error option \<times> nodes" where
  \<comment> \<open>the context is the one the transaction was begun with, as it is at the commit\<close>
  "Commit ctx tx s =
     (if Done ctx then (Some ContextDone, s) else (None, fold (\<lambda>stmt. stmt) (tx_stmts tx) s))"

definition Rollback :: "Tx \<Rightarrow> nodes \<Rightarrow> nodes" where
  "Rollback tx s = s"

subsection \<open>Ping health tracker\<close>

definition sqlResetPingError :: "NodeID \<Rightarrow> nodes \<Rightarrow> nodes" where
  "sqlResetPingError i = sql_update (\<lambda>r. node_id r = i) (\<lambda>r. r\<lparr>ping_try := 0\<rparr>)"

definition sqlUpdatePingError :: "NodeID \<Rightarrow> nodes \<Rightarrow> nodes" where
  "sqlUpdatePingError i = sql_update (\<lambda>r. node_id r = i) (\<lambda>r. r\<lparr>ping_try := ping_try r + 1\<rparr>)"

definition ResetPingError :: "Context \<Rightarrow> NodeID \<Rightarrow> nodes \<Rightarrow> error option \<times> nodes" where
  "ResetPingError ctx i s =
     (case ExecContext ctx (sqlResetPingError i) s of
        (Some err, s') \<Rightarrow> (Some (Wrap ''ResetPingError failed'' err), s')
      | (None, s') \<Rightarrow> (None, s'))"

definition UpdatePingError :: "Context \<Rightarrow> NodeID \<Rightarrow> nodes \<Rightarrow> error option \<times> nodes" where
  "UpdatePingError ctx i s =
     (case ExecContext ctx (sqlUpdatePingError i) s of
        (Some err, s') \<Rightarrow> (Some (Wrap ''UpdatePingError failed'' err), s')
      | (None, s') \<Rightarrow> (None, s'))"

subsection \<open>Address store\<close>

definition sqlUpsertNodeAddr ::
  "NodeID \<Rightarrow> string option \<Rightarrow> int option \<Rightarrow> int option \<Rightarrow>
   string option \<Rightarrow> int option \<Rightarrow> int option \<Rightarrow> int \<Rightarrow> nodes \<Rightarrow> nodes" where
  "sqlUpsertNodeAddr i ip_val portDisc portRLPx ipV6 ipV6PortDisc ipV6PortRLPx updated s =
     (if i \<in> set (map node_id s)
      then sql_update (\<lambda>r. node_id r = i)
             (\<lambda>r. r\<lparr>ip := ip_val, port_disc := portDisc, port_rlpx := portRLPx,
                     ip_v6 := ipV6, ip_v6_port_disc := ipV6PortDisc,
                     ip_v6_port_rlpx := ipV6PortRLPx, addr_updated := updated\<rparr>) s
      else s @ [\<lparr>node_id = i, ip = ip_val, port_disc = portDisc, port_rlpx = portRLPx,
                  ip_v6 = ipV6, ip_v6_port_disc = ipV6PortDisc, ip_v6_port_rlpx = ipV6PortRLPx,
                  addr_updated = updated, ping_try = 0,
                  compat_fork = None, compat_fork_updated = None,
                  client_id = None, handshake_err = None, handshake_try = 0,
                  handshake_updated = None, neighbor_keys = None, taken_last = None\<rparr>])"

text \<open>
  \<^verbatim>\<open>net.IP.String\<close> and \<^verbatim>\<open>net.ParseIP\<close> belong to Go's library; the two methods take
  them as their first argument (\<open>ParseIP\<close> returns \<open>None\<close> for Go's nil).
\<close>

definition UpsertNodeAddr ::
  "(8 word list \<Rightarrow> string) \<Rightarrow> Context \<Rightarrow> Time \<Rightarrow> NodeID \<Rightarrow> NodeAddr \<Rightarrow> nodes
     \<Rightarrow> error option \<times> nodes" where
  "UpsertNodeAddr IP_String ctx now i addr s =
     (let ip_val = map_option IP_String (IP addr);
          ipV6 = map_option IP_String (IP (IPv6 addr));
          portDisc = (if ip_val \<noteq> None \<and> PortDisc addr \<noteq> 0
                      then Some (uint (PortDisc addr)) else None);
          ipV6PortDisc = (if ipV6 \<noteq> None \<and> PortDisc (IPv6 addr) \<noteq> 0
                          then Some (uint (PortDisc (IPv6 addr))) else None);
          portRLPx = (if ip_val \<noteq> None \<and> PortRLPx addr \<noteq> 0
                      then Some (uint (PortRLPx addr)) else None);
          ipV6PortRLPx = (if ipV6 \<noteq> None \<and> PortRLPx (IPv6 addr) \<noteq> 0
                          then Some (uint (PortRLPx (IPv6 addr))) else None);
          updated = Unix now
      in case ExecContext ctx
                (sqlUpsertNodeAddr i ip_val portDisc portRLPx ipV6 ipV6PortDisc ipV6PortRLPx updated) s of
           (Some err, s') \<Rightarrow> (Some (Wrap ''failed to upsert a node address'' err), s')
         | (None, s') \<Rightarrow> (None, s'))"

definition scan_NullInt32 :: "int option \<Rightarrow> error + int option" where
  \<comment> \<open>\<^verbatim>\<open>Scan\<close> into a \<^verbatim>\<open>sql.NullInt32\<close>: a stored integer outside 32 bits is an error\<close>
  "scan_NullInt32 v =
     (case v of
        None \<Rightarrow> Inr None
      | Some n \<Rightarrow> if - (2 ^ 31) \<le> n \<and> n < 2 ^ 31 then Inr (Some n) else Inl ScanOutOfRange)"

definition port_of :: "int option \<Rightarrow> 16 word" where
  \<comment> \<open>\<^verbatim>\<open>if p.Valid { value := uint16(p.Int32) }\<close> on a port that starts as 0\<close>
  "port_of p = (case p of None \<Rightarrow> 0 | Some n \<Rightarrow> word_of_int n)"

definition FindNodeAddr ::
  "(string \<Rightarrow> 8 word list option) \<Rightarrow> Context \<Rightarrow> NodeID \<Rightarrow> nodes \<Rightarrow> error + NodeAddr option" where
  "FindNodeAddr ParseIP ctx i s =
     (case QueryContext ctx (find_node i) s of
        Inl err \<Rightarrow> Inl (Wrap ''FindNodeAddr failed'' err)
      | Inr None \<Rightarrow> Inr None
      | Inr (Some r) \<Rightarrow>
          (case (scan_NullInt32 (port_disc r), scan_NullInt32 (port_rlpx r),
                 scan_NullInt32 (ip_v6_port_disc r), scan_NullInt32 (ip_v6_port_rlpx r)) of
             (Inr portDisc, Inr portRLPx, Inr ipV6PortDisc, Inr ipV6PortRLPx) \<Rightarrow>
               (if ip r \<noteq> None \<and> ParseIP (the (ip r)) = None
                then Inl (ErrorString ''FindNodeAddr failed to parse IP'')
                else if ip_v6 r \<noteq> None \<and> ParseIP (the (ip_v6 r)) = None
                then Inl (ErrorString ''FindNodeAddr failed to parse IPv6'')
                else Inr (Some
                  \<lparr>IP = Option.bind (ip r) ParseIP,
                   PortDisc = port_of portDisc,
                   PortRLPx = port_of portRLPx,
                   IPv6 = \<lparr>IP = Option.bind (ip_v6 r) ParseIP,
                           PortDisc = port_of ipV6PortDisc,
                           PortRLPx = port_of ipV6PortRLPx\<rparr>\<rparr>))
           | _ \<Rightarrow> Inl (Wrap ''FindNodeAddr failed'' ScanOutOfRange)))"

text \<open>\<^verbatim>\<open>net.IP.Equal\<close>: a 4-byte address equals its 16-byte IPv4-in-IPv6 form.\<close>

definition v4InV6Prefix :: "8 word list" where
  "v4InV6Prefix = [0, 0, 0, 0, 0, 0, 0, 0, 0, 0, 255, 255]"

definition IP_Equal :: "8 word list \<Rightarrow> 8 word list \<Rightarrow> bool" where
  "IP_Equal a x =
     (if length a = length x then a = x
      else if length a = 4 \<and> length x = 16 then take 12 x = v4InV6Prefix \<and> a = drop 12 x
      else if length a = 16 \<and> length x = 4 then take 12 a = v4InV6Prefix \<and> drop 12 a = x
      else False)"

subsection \<open>Handshake results\<close>

definition sqlUpdateClientID :: "string \<Rightarrow> int \<Rightarrow> NodeID \<Rightarrow> nodes \<Rightarrow> nodes" where
  "sqlUpdateClientID clientID updated i =
     sql_update (\<lambda>r. node_id r = i)
       (\<lambda>r. r\<lparr>client_id := Some clientID, handshake_err := None,
               handshake_try := 0, handshake_updated := Some updated\<rparr>)"

definition sqlUpdateHandshakeError :: "string \<Rightarrow> int \<Rightarrow> NodeID \<Rightarrow> nodes \<Rightarrow> nodes" where
  "sqlUpdateHandshakeError handshakeErr updated i =
     sql_update (\<lambda>r. node_id r = i)
       (\<lambda>r. r\<lparr>handshake_err := Some handshakeErr,
               handshake_try := handshake_try r + 1, handshake_updated := Some updated\<rparr>)"

definition sqlFindHandshakeLastTry :: "NodeID \<Rightarrow> nodes \<Rightarrow> (string option \<times> int \<times> int option) option" where
  "sqlFindHandshakeLastTry i s =
     map_option (\<lambda>r. (handshake_err r, handshake_try r, handshake_updated r)) (find_node i s)"

definition UpdateClientID :: "Context \<Rightarrow> Time \<Rightarrow> NodeID \<Rightarrow> string \<Rightarrow> nodes \<Rightarrow> error option \<times> nodes" where
  "UpdateClientID ctx now i clientID s =
     (let updated = Unix now
      in case ExecContext ctx (sqlUpdateClientID clientID updated i) s of
           (Some err, s') \<Rightarrow> (Some (Wrap ''UpdateClientID failed to update a node'' err), s')
         | (None, s') \<Rightarrow> (None, s'))"

definition UpdateHandshakeError :: "Context \<Rightarrow> Time \<Rightarrow> NodeID \<Rightarrow> string \<Rightarrow> nodes \<Rightarrow> error option \<times> nodes" where
  "UpdateHandshakeError ctx now i handshakeErr s =
     (let updated = Unix now
      in case ExecContext ctx (sqlUpdateHandshakeError handshakeErr updated i) s of
           (Some err, s') \<Rightarrow> (Some (Wrap ''UpdateHandshakeError failed to update a node'' err), s')
         | (None, s') \<Rightarrow> (None, s'))"

text \<open>
  Modelled from the spec: the struct \<^verbatim>\<open>HandshakeTry\<close> that \<^verbatim>\<open>FindHandshakeLastTry\<close> fills
  is declared in neither file; its three fields are the spec's triple (hasError,
  tryCount, lastUpdated), with the types of the values the method puts there
  (\<^verbatim>\<open>bool\<close>, \<^verbatim>\<open>uint\<close>, \<^verbatim>\<open>time.Time\<close>).
\<close>

record HandshakeTry =
  HasFailed :: bool
  Try :: "64 word"
  Time :: Time

definition FindHandshakeLastTry :: "Context \<Rightarrow> NodeID \<Rightarrow> nodes \<Rightarrow> error + HandshakeTry option" where
  "FindHandshakeLastTry ctx i s =
     (case QueryContext ctx (sqlFindHandshakeLastTry i) s of
        Inl err \<Rightarrow> Inl (Wrap ''FindHandshakeLastTry failed'' err)
      | Inr None \<Rightarrow> Inr None
      | Inr (Some (handshakeErr, tryCol, updatedTimestamp)) \<Rightarrow>
          (case scan_NullInt32 (Some tryCol) of
             Inl err \<Rightarrow> Inl (Wrap ''FindHandshakeLastTry failed'' err)
           | Inr tryNum \<Rightarrow>
               (case updatedTimestamp of
                  None \<Rightarrow> Inr None
                | Some ts \<Rightarrow>
                    Inr (Some \<lparr>HasFailed = (handshakeErr \<noteq> None),
                               Try = word_of_int (the tryNum),
                               Time = Time_Unix ts\<rparr>))))"

subsection \<open>Fork compatibility and neighbor bucket keys\<close>

definition sqlUpdateForkCompatibility :: "bool \<Rightarrow> int \<Rightarrow> NodeID \<Rightarrow> nodes \<Rightarrow> nodes" where
  "sqlUpdateForkCompatibility isCompatFork updated i =
     sql_update (\<lambda>r. node_id r = i)
       (\<lambda>r. r\<lparr>compat_fork := Some (if isCompatFork then 1 else 0),
               compat_fork_updated := Some updated\<rparr>)"

definition UpdateForkCompatibility :: "Context \<Rightarrow> Time \<Rightarrow> NodeID \<Rightarrow> bool \<Rightarrow> nodes \<Rightarrow> error option \<times> nodes" where
  "UpdateForkCompatibility ctx now i isCompatFork s =
     (let updated = Unix now
      in case ExecContext ctx (sqlUpdateForkCompatibility isCompatFork updated i) s of
           (Some err, s') \<Rightarrow> (Some (Wrap ''UpdateForkCompatibility failed to update a node'' err), s')
         | (None, s') \<Rightarrow> (None, s'))"

text \<open>
  \<^verbatim>\<open>strings.Join\<close> and \<^verbatim>\<open>strings.Split\<close>. \<open>Split\<close> cuts at the leftmost occurrences of
  a non-empty separator, which is all the code asks of it (its separator is the comma).
\<close>

fun Join :: "string list \<Rightarrow> string \<Rightarrow> string" where
  "Join [] sep = []"
| "Join [x] sep = x"
| "Join (x # y # ys) sep = x @ sep @ Join (y # ys) sep"

function genSplit :: "string \<Rightarrow> string \<Rightarrow> string \<Rightarrow> string list" where
  "genSplit sep cur [] = [cur]"
| "genSplit sep cur (c # cs) =
     (if sep \<noteq> [] \<and> take (length sep) (c # cs) = sep
      then cur # genSplit sep [] (drop (length sep) (c # cs))
      else genSplit sep (cur @ [c]) cs)"
  by pat_completeness auto
termination
  by (relation "measure (\<lambda>(sep, cur, s). length s)") auto

definition Split :: "string \<Rightarrow> string \<Rightarrow> string list" where
  "Split s sep = genSplit sep [] s"

definition sqlUpdateNeighborBucketKeys :: "string \<Rightarrow> NodeID \<Rightarrow> nodes \<Rightarrow> nodes" where
  "sqlUpdateNeighborBucketKeys keysStr i =
     sql_update (\<lambda>r. node_id r = i) (\<lambda>r. r\<lparr>neighbor_keys := Some keysStr\<rparr>)"

definition sqlFindNeighborBucketKeys :: "NodeID \<Rightarrow> nodes \<Rightarrow> string option option" where
  "sqlFindNeighborBucketKeys i s = map_option neighbor_keys (find_node i s)"

definition UpdateNeighborBucketKeys :: "Context \<Rightarrow> NodeID \<Rightarrow> string list \<Rightarrow> nodes \<Rightarrow> error option \<times> nodes" where
  "UpdateNeighborBucketKeys ctx i keys s =
     (let keysStr = Join keys '',''
      in case ExecContext ctx (sqlUpdateNeighborBucketKeys keysStr i) s of
           (Some err, s') \<Rightarrow> (Some (Wrap ''UpdateNeighborBucketKeys failed to update a node'' err), s')
         | (None, s') \<Rightarrow> (None, s'))"

definition FindNeighborBucketKeys :: "Context \<Rightarrow> NodeID \<Rightarrow> nodes \<Rightarrow> error + string list option" where
  "FindNeighborBucketKeys ctx i s =
     (case QueryContext ctx (sqlFindNeighborBucketKeys i) s of
        Inl err \<Rightarrow> Inl (Wrap ''FindNeighborBucketKeys failed'' err)
      | Inr None \<Rightarrow> Inr None
      | Inr (Some None) \<Rightarrow> Inr None
      | Inr (Some (Some keysStr)) \<Rightarrow> Inr (Some (Split keysStr '','')))"

subsection \<open>WHERE clauses\<close>

text \<open>
  SQL conditions have three values; \<open>None\<close> is NULL (unknown). A comparison with a NULL
  column is NULL, \<^verbatim>\<open>AND\<close> and \<^verbatim>\<open>OR\<close> follow Kleene's tables, and a row is selected when
  its condition is true.
\<close>

type_synonym sqlbool = "bool option"

fun sql_and :: "sqlbool \<Rightarrow> sqlbool \<Rightarrow> sqlbool" where
  "sql_and (Some False) _ = Some False"
| "sql_and _ (Some False) = Some False"
| "sql_and (Some True) (Some True) = Some True"
| "sql_and _ _ = None"

fun sql_or :: "sqlbool \<Rightarrow> sqlbool \<Rightarrow> sqlbool" where
  "sql_or (Some True) _ = Some True"
| "sql_or _ (Some True) = Some True"
| "sql_or (Some False) (Some False) = Some False"
| "sql_or _ _ = None"

definition sql_is_null :: "'a option \<Rightarrow> sqlbool" where
  "sql_is_null v = Some (v = None)"

definition sql_is_not_null :: "'a option \<Rightarrow> sqlbool" where
  "sql_is_not_null v = Some (v \<noteq> None)"

definition sql_lt :: "int option \<Rightarrow> int \<Rightarrow> sqlbool" where
  "sql_lt v bound = map_option (\<lambda>n. n < bound) v"

definition sql_le :: "int \<Rightarrow> int \<Rightarrow> sqlbool" where
  \<comment> \<open>on a NOT NULL column\<close>
  "sql_le n bound = Some (n \<le> bound)"

definition sql_eq :: "'a option \<Rightarrow> 'a \<Rightarrow> sqlbool" where
  "sql_eq v x = map_option (\<lambda>y. y = x) v"

definition sql_select :: "(node \<Rightarrow> sqlbool) \<Rightarrow> (node \<Rightarrow> int option) \<Rightarrow> nat \<Rightarrow> nodes \<Rightarrow> nodes" where
  \<comment> \<open>\<^verbatim>\<open>FROM nodes WHERE cond ORDER BY col LIMIT ?\<close>: NULL sorts first; rows with
      equal keys stay in table order, which SQL leaves open\<close>
  "sql_select cond col lim s = take lim (sort_key col (filter (\<lambda>r. cond r = Some True) s))"

fun read_ids :: "NodeID list \<Rightarrow> NodeID list \<Rightarrow> NodeID list" where
  \<comment> \<open>\<^verbatim>\<open>for cursor.Next() { cursor.Scan(&id); nodes = append(nodes, NodeID(id)) }\<close>\<close>
  "read_ids acc [] = acc"
| "read_ids acc (i # cursor) = read_ids (acc @ [i]) cursor"

subsection \<open>Handshake scheduler\<close>

definition whereFindHandshakeCandidates :: "int \<Rightarrow> int \<Rightarrow> int \<Rightarrow> string \<Rightarrow> node \<Rightarrow> sqlbool" where
  "whereFindHandshakeCandidates updatedOKBefore updatedErrBefore maxHandshakeTries transientErr r =
     sql_and
       (sql_and
          (sql_or
             (sql_or
                (sql_is_null (handshake_updated r))
                (sql_and (sql_lt (handshake_updated r) updatedOKBefore)
                         (sql_is_null (handshake_err r))))
             (sql_and (sql_lt (handshake_updated r) updatedErrBefore)
                      (sql_is_not_null (handshake_err r))))
          (sql_or (sql_eq (compat_fork r) 1) (sql_is_null (compat_fork r))))
       (sql_or (sql_le (handshake_try r) maxHandshakeTries)
               (sql_eq (handshake_err r) transientErr))"

definition sqlFindHandshakeCandidates_rows :: "int \<Rightarrow> int \<Rightarrow> int \<Rightarrow> string \<Rightarrow> nat \<Rightarrow> nodes \<Rightarrow> nodes" where
  "sqlFindHandshakeCandidates_rows updatedOKBefore updatedErrBefore maxHandshakeTries transientErr lim =
     sql_select
       (whereFindHandshakeCandidates updatedOKBefore updatedErrBefore maxHandshakeTries transientErr)
       handshake_updated lim"

definition sqlFindHandshakeCandidates :: "int \<Rightarrow> int \<Rightarrow> int \<Rightarrow> string \<Rightarrow> nat \<Rightarrow> nodes \<Rightarrow> NodeID list" where
  \<comment> \<open>\<^verbatim>\<open>SELECT id\<close> of the rows above\<close>
  "sqlFindHandshakeCandidates updatedOKBefore updatedErrBefore maxHandshakeTries transientErr lim s =
     map node_id
       (sqlFindHandshakeCandidates_rows updatedOKBefore updatedErrBefore maxHandshakeTries transientErr lim s)"

text \<open>
  The two calls of \<^verbatim>\<open>time.Now()\<close> are \<open>now1\<close> and \<open>now2\<close>. Go's \<^verbatim>\<open>uint\<close> arguments are
  natural numbers, taken below \<open>2 ^ 63\<close>, where the integer bound to the statement has
  the same value.
\<close>

definition FindHandshakeCandidates ::
  "Context \<Rightarrow> Time \<Rightarrow> Time \<Rightarrow> Duration \<Rightarrow> Duration \<Rightarrow> nat \<Rightarrow> string \<Rightarrow> nat \<Rightarrow> nodes
     \<Rightarrow> error + NodeID list" where
  "FindHandshakeCandidates ctx now1 now2 minUnusedOKDuration minUnusedErrDuration
       maxHandshakeTries transientErr lim s =
     (let updatedOKBefore = Unix (Add now1 (- minUnusedOKDuration));
          updatedErrBefore = Unix (Add now2 (- minUnusedErrDuration))
      in case QueryContext ctx
                (sqlFindHandshakeCandidates updatedOKBefore updatedErrBefore
                   (int maxHandshakeTries) transientErr lim) s of
           Inl err \<Rightarrow> Inl (Wrap ''FindHandshakeCandidates failed to query candidates'' err)
         | Inr cursor \<Rightarrow> Inr (read_ids [] cursor))"

definition sqlMarkTakenHandshakeCandidates :: "int \<Rightarrow> NodeID list \<Rightarrow> nodes \<Rightarrow> nodes" where
  \<comment> \<open>\<^verbatim>\<open>WHERE id IN (?,...,?)\<close> with one placeholder for each of the ids\<close>
  "sqlMarkTakenHandshakeCandidates takenLast ids =
     sql_update (\<lambda>r. node_id r \<in> set ids)
       (\<lambda>r. r\<lparr>handshake_updated := Some takenLast, handshake_err := Some ''taken''\<rparr>)"

definition MarkTakenHandshakeCandidates :: "Context \<Rightarrow> Time \<Rightarrow> NodeID list \<Rightarrow> nodes \<Rightarrow> error option \<times> nodes" where
  "MarkTakenHandshakeCandidates ctx now ids s =
     (if length ids = 0 then (None, s)
      else let takenLast = Unix now
           in case ExecContext ctx (sqlMarkTakenHandshakeCandidates takenLast ids) s of
                (Some err, s') \<Rightarrow> (Some (Wrap ''failed to mark taken handshake candidates'' err), s')
              | (None, s') \<Rightarrow> (None, s'))"

subsection \<open>Crawl candidate scheduler\<close>

definition whereTakenLast :: "int \<Rightarrow> node \<Rightarrow> sqlbool" where
  \<comment> \<open>the first condition of \<^verbatim>\<open>sqlFindCandidates\<close>, the cooldown after a claim\<close>
  "whereTakenLast takenLastBefore r =
     sql_or (sql_is_null (taken_last r)) (sql_lt (taken_last r) takenLastBefore)"

definition whereFindCandidates :: "int \<Rightarrow> int \<Rightarrow> int \<Rightarrow> string \<Rightarrow> node \<Rightarrow> sqlbool" where
  "whereFindCandidates takenLastBefore maxPingTries maxHandshakeTries transientHandshakeErr r =
     sql_and
       (sql_and
          (sql_and
             (whereTakenLast takenLastBefore r)
             (sql_or (sql_eq (compat_fork r) 1) (sql_is_null (compat_fork r))))
          (sql_le (ping_try r) maxPingTries))
       (sql_or (sql_le (handshake_try r) maxHandshakeTries)
               (sql_eq (handshake_err r) transientHandshakeErr))"

definition sqlFindCandidates_rows :: "int \<Rightarrow> int \<Rightarrow> int \<Rightarrow> string \<Rightarrow> nat \<Rightarrow> nodes \<Rightarrow> nodes" where
  "sqlFindCandidates_rows takenLastBefore maxPingTries maxHandshakeTries transientHandshakeErr lim =
     sql_select
       (whereFindCandidates takenLastBefore maxPingTries maxHandshakeTries transientHandshakeErr)
       taken_last lim"

definition sqlFindCandidates :: "int \<Rightarrow> int \<Rightarrow> int \<Rightarrow> string \<Rightarrow> nat \<Rightarrow> nodes \<Rightarrow> NodeID list" where
  "sqlFindCandidates takenLastBefore maxPingTries maxHandshakeTries transientHandshakeErr lim s =
     map node_id
       (sqlFindCandidates_rows takenLastBefore maxPingTries maxHandshakeTries transientHandshakeErr lim s)"

definition FindCandidates ::
  "Context \<Rightarrow> Time \<Rightarrow> Duration \<Rightarrow> nat \<Rightarrow> nat \<Rightarrow> string \<Rightarrow> nat \<Rightarrow> nodes \<Rightarrow> error + NodeID list" where
  "FindCandidates ctx now minUnusedDuration maxPingTries maxHandshakeTries transientHandshakeErr lim s =
     (let takenLastBefore = Unix (Add now (- minUnusedDuration))
      in case QueryContext ctx
                (sqlFindCandidates takenLastBefore (int maxPingTries) (int maxHandshakeTries)
                   transientHandshakeErr lim) s of
           Inl err \<Rightarrow> Inl (Wrap ''FindCandidates failed to query candidates'' err)
         | Inr cursor \<Rightarrow> Inr (read_ids [] cursor))"

definition sqlMarkTakenNodes :: "int \<Rightarrow> NodeID list \<Rightarrow> nodes \<Rightarrow> nodes" where
  "sqlMarkTakenNodes takenLast ids =
     sql_update (\<lambda>r. node_id r \<in> set ids) (\<lambda>r. r\<lparr>taken_last := Some takenLast\<rparr>)"

definition MarkTakenNodes :: "Context \<Rightarrow> Time \<Rightarrow> NodeID list \<Rightarrow> nodes \<Rightarrow> error option \<times> nodes" where
  "MarkTakenNodes ctx now ids s =
     (if length ids = 0 then (None, s)
      else let takenLast = Unix now
           in case ExecContext ctx (sqlMarkTakenNodes takenLast ids) s of
                (Some err, s') \<Rightarrow> (Some (Wrap ''failed to mark taken nodes'' err), s')
              | (None, s') \<Rightarrow> (None, s'))"

subsection \<open>Claim mechanism\<close>

text \<open>
  Both methods begin a transaction \<open>tx\<close> and then call their Find and their Mark method,
  which execute on the \<^verbatim>\<open>sql.DB\<close> handle. \<open>nowFind\<close> and \<open>nowMark\<close> are the times the two
  methods read; the context has moved on by one step at each call.
\<close>

definition TakeHandshakeCandidates ::
  "Context \<Rightarrow> Time \<Rightarrow> Time \<Rightarrow> Time \<Rightarrow> Duration \<Rightarrow> Duration \<Rightarrow> nat \<Rightarrow> string \<Rightarrow> nat \<Rightarrow> nodes
     \<Rightarrow> (error + NodeID list) \<times> nodes" where
  "TakeHandshakeCandidates ctx nowFind1 nowFind2 nowMark minUnusedOKDuration minUnusedErrDuration
       maxHandshakeTries transientErr lim s =
     (case BeginTx ctx of
        Inl err \<Rightarrow> (Inl (Wrap ''TakeHandshakeCandidates failed to start transaction'' err), s)
      | Inr tx \<Rightarrow>
          (case FindHandshakeCandidates (after_call ctx) nowFind1 nowFind2
                  minUnusedOKDuration minUnusedErrDuration maxHandshakeTries transientErr lim s of
             Inl err \<Rightarrow> (Inl err, Rollback tx s)
           | Inr ids \<Rightarrow>
               (case MarkTakenHandshakeCandidates (after_call (after_call ctx)) nowMark ids s of
                  (Some err, s') \<Rightarrow> (Inl err, Rollback tx s')
                | (None, s') \<Rightarrow>
                    (case Commit (after_call (after_call (after_call ctx))) tx s' of
                       (Some err, s'') \<Rightarrow>
                         (Inl (Wrap ''TakeHandshakeCandidates failed to commit transaction'' err), s'')
                     | (None, s'') \<Rightarrow> (Inr ids, s'')))))"

definition TakeCandidates ::
  "Context \<Rightarrow> Time \<Rightarrow> Time \<Rightarrow> Duration \<Rightarrow> nat \<Rightarrow> nat \<Rightarrow> string \<Rightarrow> nat \<Rightarrow> nodes
     \<Rightarrow> (error + NodeID list) \<times> nodes" where
  "TakeCandidates ctx nowFind nowMark minUnusedDuration maxPingTries maxHandshakeTries
       transientHandshakeErr lim s =
     (case BeginTx ctx of
        Inl err \<Rightarrow> (Inl (Wrap ''TakeCandidates failed to start transaction'' err), s)
      | Inr tx \<Rightarrow>
          (case FindCandidates (after_call ctx) nowFind minUnusedDuration maxPingTries
                  maxHandshakeTries transientHandshakeErr lim s of
             Inl err \<Rightarrow> (Inl err, Rollback tx s)
           | Inr ids \<Rightarrow>
               (case MarkTakenNodes (after_call (after_call ctx)) nowMark ids s of
                  (Some err, s') \<Rightarrow> (Inl err, Rollback tx s')
                | (None, s') \<Rightarrow>
                    (case Commit (after_call (after_call (after_call ctx))) tx s' of
                       (Some err, s'') \<Rightarrow>
                         (Inl (Wrap ''TakeCandidates failed to commit transaction'' err), s'')
                     | (None, s'') \<Rightarrow> (Inr ids, s'')))))"

subsection \<open>Two callers of TakeCandidates\<close>

text \<open>
  One call of \<open>TakeCandidates\<close> makes four storage calls in a row: \<^verbatim>\<open>BeginTx\<close>, the
  query of \<open>FindCandidates\<close>, the update of \<open>MarkTakenNodes\<close>, \<^verbatim>\<open>Commit\<close>. \<open>take_step\<close>
  makes the next of them for a call that has come as far as its state says. Two calls
  \<open>A\<close> and \<open>B\<close> on one table then run under a schedule that names, step by step, the
  call whose next storage call the storage layer serves.
\<close>

record take_args =
  arg_ctx :: Context
  arg_nowFind :: Time
  arg_nowMark :: Time
  arg_minUnusedDuration :: Duration
  arg_maxPingTries :: nat
  arg_maxHandshakeTries :: nat
  arg_transientHandshakeErr :: string
  arg_limit :: nat

datatype take_state =
    Called
  | Began Tx
  | Found Tx "NodeID list"
  | Marked Tx "NodeID list"
  | Returned "error + NodeID list"

fun take_step :: "take_args \<Rightarrow> take_state \<Rightarrow> nodes \<Rightarrow> take_state \<times> nodes" where
  "take_step a Called s =
     (case BeginTx (arg_ctx a) of
        Inl err \<Rightarrow> (Returned (Inl (Wrap ''TakeCandidates failed to start transaction'' err)), s)
      | Inr tx \<Rightarrow> (Began tx, s))"
| "take_step a (Began tx) s =
     (case FindCandidates (after_call (arg_ctx a)) (arg_nowFind a) (arg_minUnusedDuration a)
             (arg_maxPingTries a) (arg_maxHandshakeTries a) (arg_transientHandshakeErr a)
             (arg_limit a) s of
        Inl err \<Rightarrow> (Returned (Inl err), Rollback tx s)
      | Inr ids \<Rightarrow> (Found tx ids, s))"
| "take_step a (Found tx ids) s =
     (case MarkTakenNodes (after_call (after_call (arg_ctx a))) (arg_nowMark a) ids s of
        (Some err, s') \<Rightarrow> (Returned (Inl err), Rollback tx s')
      | (None, s') \<Rightarrow> (Marked tx ids, s'))"
| "take_step a (Marked tx ids) s =
     (case Commit (after_call (after_call (after_call (arg_ctx a)))) tx s of
        (Some err, s') \<Rightarrow>
          (Returned (Inl (Wrap ''TakeCandidates failed to commit transaction'' err)), s')
      | (None, s') \<Rightarrow> (Returned (Inr ids), s'))"
| "take_step a (Returned res) s = (Returned res, s)"

datatype caller = A | B

fun run_takes ::
  "take_args \<Rightarrow> take_args \<Rightarrow> caller list \<Rightarrow> take_state \<times> take_state \<times> nodes
     \<Rightarrow> take_state \<times> take_state \<times> nodes" where
  "run_takes a b [] st = st"
| "run_takes a b (A # sched) (sa, sb, s) =
     (case take_step a sa s of (sa', s') \<Rightarrow> run_takes a b sched (sa', sb, s'))"
| "run_takes a b (B # sched) (sa, sb, s) =
     (case take_step b sb s of (sb', s') \<Rightarrow> run_takes a b sched (sa, sb', s'))"

definition returned_ids :: "take_state \<Rightarrow> NodeID set" where
  "returned_ids st = (case st of Returned (Inr ids) \<Rightarrow> set ids | _ \<Rightarrow> {})"

subsection \<open>The eligibility rules in the spec's words\<close>


definition fork_compatible_or_unknown :: "node \<Rightarrow> bool" where
  "fork_compatible_or_unknown r \<longleftrightarrow> compat_fork r = Some 1 \<or> compat_fork r = None"

definition handshake_tries_allowed :: "nat \<Rightarrow> string \<Rightarrow> node \<Rightarrow> bool" where
  "handshake_tries_allowed maxHandshakeTries transientErrTag r \<longleftrightarrow>
     handshake_try r \<le> int maxHandshakeTries \<or> handshake_err r = Some transientErrTag"



subsection \<open>The quiet period on whole seconds\<close>

text \<open>
  What \<open>FindHandshakeCandidates\<close> compares: the stamp with the Unix second of the
  instant \<open>d\<close> before \<open>now\<close>, as \<^verbatim>\<open>time.Now().Add(-d).Unix()\<close> computes it. The other two
  conditions are those of the spec.
\<close>

definition second_before :: "Time \<Rightarrow> Duration \<Rightarrow> int \<Rightarrow> bool" where
  "second_before now d t \<longleftrightarrow> t < Unix (Add now (- d))"

definition handshake_quiet_seconds :: "Time \<Rightarrow> Time \<Rightarrow> Duration \<Rightarrow> Duration \<Rightarrow> node \<Rightarrow> bool" where
  "handshake_quiet_seconds now1 now2 minUnusedOKDuration minUnusedErrDuration r \<longleftrightarrow>
     handshake_updated r = None
     \<or> (handshake_updated r \<noteq> None \<and> handshake_err r = None
          \<and> second_before now1 minUnusedOKDuration (the (handshake_updated r)))
     \<or> (handshake_updated r \<noteq> None \<and> handshake_err r \<noteq> None
          \<and> second_before now2 minUnusedErrDuration (the (handshake_updated r)))"

definition handshake_candidate_seconds ::
  "Time \<Rightarrow> Time \<Rightarrow> Duration \<Rightarrow> Duration \<Rightarrow> nat \<Rightarrow> string \<Rightarrow> node \<Rightarrow> bool" where
  "handshake_candidate_seconds now1 now2 minUnusedOKDuration minUnusedErrDuration
       maxHandshakeTries transientErrTag r \<longleftrightarrow>
     handshake_quiet_seconds now1 now2 minUnusedOKDuration minUnusedErrDuration r
     \<and> fork_compatible_or_unknown r
     \<and> handshake_tries_allowed maxHandshakeTries transientErrTag r"

subsection \<open>Example rows\<close>

definition blank_node :: "NodeID \<Rightarrow> node" where
  \<comment> \<open>the row \<open>sqlUpsertNodeAddr\<close> inserts for an empty address at time 0\<close>
  "blank_node i =
     \<lparr>node_id = i, ip = None, port_disc = None, port_rlpx = None,
      ip_v6 = None, ip_v6_port_disc = None, ip_v6_port_rlpx = None,
      addr_updated = 0, ping_try = 0,
      compat_fork = None, compat_fork_updated = None,
      client_id = None, handshake_err = None, handshake_try = 0,
      handshake_updated = None, neighbor_keys = None, taken_last = None\<rparr>"

definition example_nodes :: nodes where
  "example_nodes =
     [blank_node ''a'',
      (blank_node ''b'')\<lparr>handshake_err := Some ''timeout'', handshake_try := 102,
                           handshake_updated := Some 1699990000\<rparr>,
      (blank_node ''c'')\<lparr>compat_fork := Some 0\<rparr>,
      (blank_node ''d'')\<lparr>handshake_err := Some ''other'', handshake_try := 5,
                           handshake_updated := Some 1699990000\<rparr>,
      (blank_node ''e'')\<lparr>handshake_updated := Some 1699999990\<rparr>,
      (blank_node ''f'')\<lparr>compat_fork := Some 1, handshake_updated := Some 1699900000\<rparr>]"

definition example_take_args :: "Time \<Rightarrow> Time \<Rightarrow> take_args" where
  "example_take_args nowFind nowMark =
     \<lparr>arg_ctx = Background, arg_nowFind = nowFind, arg_nowMark = nowMark,
      arg_minUnusedDuration = 60000000000, arg_maxPingTries = 10,
      arg_maxHandshakeTries = 10, arg_transientHandshakeErr = ''x'', arg_limit = 10\<rparr>"

text \<open>The scenario of the spec: three failed handshakes of \<open>A\<close>, each reported as a timeout.\<close>

definition three_timeouts :: nodes where
  "three_timeouts =
     snd (UpdateHandshakeError Background 1700000000000000000 ''A'' ''timeout''
       (snd (UpdateHandshakeError Background 1690000000000000000 ''A'' ''timeout''
         (snd (UpdateHandshakeError Background 1680000000000000000 ''A'' ''timeout''
           [blank_node ''A''])))))"

section \<open>Properties\<close>

subsection \<open>Rows and updates\<close>

lemma find_node_sql_update:
  assumes "\<And>r. node_id (f r) = node_id r"
  shows "find_node i (sql_update (\<lambda>r. node_id r = j) f s) =
     (if i = j then map_option f (find_node i s) else find_node i s)"
  using assms by (induction s) (auto simp: find_node_def sql_update_def)

lemma find_node_sql_update_in:
  assumes "\<And>r. node_id (f r) = node_id r"
  shows "find_node i (sql_update (\<lambda>r. node_id r \<in> I) f s) =
     (if i \<in> I then map_option f (find_node i s) else find_node i s)"
  using assms by (induction s) (auto simp: find_node_def sql_update_def)

lemma node_id_sql_update:
  assumes "\<And>r. node_id (f r) = node_id r"
  shows "map node_id (sql_update cond f s) = map node_id s"
  using assms by (induction s) (auto simp: sql_update_def)

lemma sql_update_absent:
  "\<forall>r \<in> set s. \<not> cond r \<Longrightarrow> sql_update cond f s = s"
  by (induction s) (auto simp: sql_update_def)

lemma find_node_None_iff: "find_node i s = None \<longleftrightarrow> i \<notin> node_id ` set s"
  by (induction s) (auto simp: find_node_def)

lemma ExecContext_alive: "\<not> Done ctx \<Longrightarrow> ExecContext ctx stmt s = (None, stmt s)"
  by (simp add: ExecContext_def)

lemma ExecContext_done: "Done ctx \<Longrightarrow> ExecContext ctx stmt s = (Some ContextDone, s)"
  by (simp add: ExecContext_def)

subsection \<open>Ping counter\<close>

lemma UpdatePingError_funpow:
  assumes "\<not> Done ctx" and "find_node i s = Some r"
  shows "map_option ping_try (find_node i (((\<lambda>t. snd (UpdatePingError ctx i t)) ^^ N) s))
           = Some (ping_try r + int N)"
proof (induction N)
  case 0
  then show ?case using assms by simp
next
  case (Suc N)
  then obtain r' where r': "find_node i (((\<lambda>t. snd (UpdatePingError ctx i t)) ^^ N) s) = Some r'"
    and p: "ping_try r' = ping_try r + int N" by auto
  show ?case
    using assms(1) r' p
    by (simp add: UpdatePingError_def ExecContext_alive sqlUpdatePingError_def find_node_sql_update)
qed

text \<open>
  C9. For a record that exists, under a context that has not ended: \<open>ResetPingError\<close>
  succeeds and leaves the stored \<open>ping_try\<close> at 0, and so does a second call right after
  it; \<open>UpdatePingError\<close> succeeds and adds exactly 1 to the stored \<open>ping_try\<close>; and \<open>N\<close>
  calls of \<open>UpdatePingError\<close> on a record whose \<open>ping_try\<close> is 0 leave it at \<open>N\<close>.
\<close>

theorem ping_counter_algebra:
  assumes "find_node i s = Some r" and "\<not> Done ctx"
  shows "fst (ResetPingError ctx i s) = None
       \<and> map_option ping_try (find_node i (snd (ResetPingError ctx i s))) = Some 0
       \<and> fst (ResetPingError ctx i (snd (ResetPingError ctx i s))) = None
       \<and> map_option ping_try
            (find_node i (snd (ResetPingError ctx i (snd (ResetPingError ctx i s))))) = Some 0
       \<and> fst (UpdatePingError ctx i s) = None
       \<and> map_option ping_try (find_node i (snd (UpdatePingError ctx i s))) = Some (ping_try r + 1)
       \<and> (ping_try r = 0 \<longrightarrow>
            map_option ping_try (find_node i (((\<lambda>t. snd (UpdatePingError ctx i t)) ^^ N) s))
              = Some (int N))"
  using assms UpdatePingError_funpow [OF assms(2) assms(1), of N]
  by (auto simp: ResetPingError_def UpdatePingError_def ExecContext_alive sqlResetPingError_def
      sqlUpdatePingError_def find_node_sql_update)

theorem ping_counter_algebra_witness:
  "map_option ping_try
     (find_node ''a'' (snd (ResetPingError Background ''a'' [(blank_node ''a'')\<lparr>ping_try := 7\<rparr>])))
     = Some 0
   \<and> map_option ping_try
       (find_node ''a'' (((\<lambda>t. snd (UpdatePingError Background ''a'' t)) ^^ 3) [blank_node ''a'']))
     = Some 3"
  using ping_counter_algebra [of "''a''" "[(blank_node ''a'')\<lparr>ping_try := 7\<rparr>]"
          "(blank_node ''a'')\<lparr>ping_try := 7\<rparr>" Background 0]
    ping_counter_algebra [of "''a''" "[blank_node ''a'']" "blank_node ''a''" Background 3]
  by (simp add: find_node_def blank_node_def)

subsection \<open>Operations on a record that does not exist\<close>

lemma node_ids_sqlUpsertNodeAddr:
  "set (map node_id (sqlUpsertNodeAddr i a b c d e f g s)) = insert i (set (map node_id s))"
proof (cases "i \<in> set (map node_id s)")
  case True
  then have "sqlUpsertNodeAddr i a b c d e f g s = sql_update (\<lambda>r. node_id r = i)
             (\<lambda>r. r\<lparr>ip := a, port_disc := b, port_rlpx := c,
                     ip_v6 := d, ip_v6_port_disc := e,
                     ip_v6_port_rlpx := f, addr_updated := g\<rparr>) s"
    by (simp only: sqlUpsertNodeAddr_def if_True)
  moreover have "map node_id (sql_update (\<lambda>r. node_id r = i)
             (\<lambda>r. r\<lparr>ip := a, port_disc := b, port_rlpx := c,
                     ip_v6 := d, ip_v6_port_disc := e,
                     ip_v6_port_rlpx := f, addr_updated := g\<rparr>) s) = map node_id s"
    by (rule node_id_sql_update) simp
  ultimately show ?thesis using True by (simp only: insert_absorb)
next
  case False
  then show ?thesis
    by (simp add: sqlUpsertNodeAddr_def)
qed

lemma snd_UpsertNodeAddr:
  "\<not> Done ctx \<Longrightarrow> \<exists>a b c d e f g. snd (UpsertNodeAddr IP_String ctx now i addr s)
      = sqlUpsertNodeAddr i a b c d e f g s"
  unfolding UpsertNodeAddr_def Let_def
  by (simp add: ExecContext_alive) blast

lemma node_ids_upsert:
  "\<not> Done ctx \<Longrightarrow> set (map node_id (snd (UpsertNodeAddr IP_String ctx now i addr s)))
      = insert i (set (map node_id s))"
proof -
  assume "\<not> Done ctx"
  then obtain a b c d e f g where
    "snd (UpsertNodeAddr IP_String ctx now i addr s) = sqlUpsertNodeAddr i a b c d e f g s"
    using snd_UpsertNodeAddr by blast
  then show ?thesis by (simp only: node_ids_sqlUpsertNodeAddr)
qed

lemma find_node_NoneD: "find_node i s = None \<Longrightarrow> \<forall>r \<in> set s. node_id r \<noteq> i"
  by (auto simp: find_node_None_iff)

lemma sql_update_missing:
  "find_node i s = None \<Longrightarrow> sql_update (\<lambda>r. node_id r = i) f s = s"
  by (rule sql_update_absent) (auto dest: find_node_NoneD)

lemma sql_update_missing_in:
  "\<forall>j \<in> set ids. find_node j s = None \<Longrightarrow> sql_update (\<lambda>r. node_id r \<in> set ids) f s = s"
  by (rule sql_update_absent) (auto simp: find_node_None_iff)

lemma node_ids_single_updates:
  "map node_id (snd (ResetPingError ctx j t)) = map node_id t"
  "map node_id (snd (UpdatePingError ctx j t)) = map node_id t"
  "map node_id (snd (UpdateClientID ctx now j cid t)) = map node_id t"
  "map node_id (snd (UpdateHandshakeError ctx now j e t)) = map node_id t"
  "map node_id (snd (UpdateForkCompatibility ctx now j b t)) = map node_id t"
  "map node_id (snd (UpdateNeighborBucketKeys ctx j keys t)) = map node_id t"
  by (simp_all add: ResetPingError_def UpdatePingError_def UpdateClientID_def
      UpdateHandshakeError_def UpdateForkCompatibility_def UpdateNeighborBucketKeys_def
      ExecContext_def sqlResetPingError_def sqlUpdatePingError_def sqlUpdateClientID_def
      sqlUpdateHandshakeError_def sqlUpdateForkCompatibility_def sqlUpdateNeighborBucketKeys_def
      node_id_sql_update)

lemma node_ids_marks:
  "map node_id (snd (MarkTakenNodes ctx now js t)) = map node_id t"
  "map node_id (snd (MarkTakenHandshakeCandidates ctx now js t)) = map node_id t"
  by (simp_all add: MarkTakenNodes_def MarkTakenHandshakeCandidates_def ExecContext_def
      sqlMarkTakenNodes_def sqlMarkTakenHandshakeCandidates_def node_id_sql_update)

text \<open>
  C10. When no record exists for \<open>i\<close> (and for none of \<open>ids\<close>), each of the eight
  mutating methods other than \<open>UpsertNodeAddr\<close> returns no error and leaves the table as
  it was, under a context that has not ended; \<open>UpsertNodeAddr\<close> creates the record; and
  on any table and for any arguments the eight methods leave the list of ids as it was,
  so none of them ever creates a record.
\<close>

theorem absent_record_noop:
  assumes "find_node i s = None" and "\<forall>j \<in> set ids. find_node j s = None" and "\<not> Done ctx"
  shows "ResetPingError ctx i s = (None, s)
       \<and> UpdatePingError ctx i s = (None, s)
       \<and> UpdateClientID ctx now i clientID s = (None, s)
       \<and> UpdateHandshakeError ctx now i handshakeErr s = (None, s)
       \<and> UpdateForkCompatibility ctx now i isCompatFork s = (None, s)
       \<and> UpdateNeighborBucketKeys ctx i keys s = (None, s)
       \<and> MarkTakenNodes ctx now ids s = (None, s)
       \<and> MarkTakenHandshakeCandidates ctx now ids s = (None, s)
       \<and> find_node i (snd (UpsertNodeAddr IP_String ctx now i addr s)) \<noteq> None
       \<and> map node_id (snd (ResetPingError ctx' j t)) = map node_id t
       \<and> map node_id (snd (UpdatePingError ctx' j t)) = map node_id t
       \<and> map node_id (snd (UpdateClientID ctx' now' j clientID t)) = map node_id t
       \<and> map node_id (snd (UpdateHandshakeError ctx' now' j handshakeErr t)) = map node_id t
       \<and> map node_id (snd (UpdateForkCompatibility ctx' now' j isCompatFork t)) = map node_id t
       \<and> map node_id (snd (UpdateNeighborBucketKeys ctx' j keys t)) = map node_id t
       \<and> map node_id (snd (MarkTakenNodes ctx' now' js t)) = map node_id t
       \<and> map node_id (snd (MarkTakenHandshakeCandidates ctx' now' js t)) = map node_id t"
proof -
  have single: "ResetPingError ctx i s = (None, s)" "UpdatePingError ctx i s = (None, s)"
    "UpdateClientID ctx now i clientID s = (None, s)"
    "UpdateHandshakeError ctx now i handshakeErr s = (None, s)"
    "UpdateForkCompatibility ctx now i isCompatFork s = (None, s)"
    "UpdateNeighborBucketKeys ctx i keys s = (None, s)"
    using assms(1,3)
    by (simp_all add: ResetPingError_def UpdatePingError_def UpdateClientID_def
        UpdateHandshakeError_def UpdateForkCompatibility_def UpdateNeighborBucketKeys_def
        ExecContext_alive sqlResetPingError_def sqlUpdatePingError_def sqlUpdateClientID_def
        sqlUpdateHandshakeError_def sqlUpdateForkCompatibility_def
        sqlUpdateNeighborBucketKeys_def sql_update_missing)
  have marks: "MarkTakenNodes ctx now ids s = (None, s)"
    "MarkTakenHandshakeCandidates ctx now ids s = (None, s)"
    using assms(2,3)
    by (simp_all add: MarkTakenNodes_def MarkTakenHandshakeCandidates_def ExecContext_alive
        sqlMarkTakenNodes_def sqlMarkTakenHandshakeCandidates_def sql_update_missing_in)
  have "i \<in> set (map node_id (snd (UpsertNodeAddr IP_String ctx now i addr s)))"
    using node_ids_upsert [OF assms(3)] by blast
  then have ups: "find_node i (snd (UpsertNodeAddr IP_String ctx now i addr s)) \<noteq> None"
    by (simp add: find_node_None_iff)
  show ?thesis
    using single marks ups by (simp add: node_ids_single_updates node_ids_marks)
qed

theorem absent_record_noop_witness:
  "ResetPingError Background ''b'' [blank_node ''a''] = (None, [blank_node ''a''])
   \<and> UpdateHandshakeError Background 5 ''b'' ''timeout'' [blank_node ''a''] = (None, [blank_node ''a''])
   \<and> MarkTakenNodes Background 5 [''b'', ''c''] [blank_node ''a''] = (None, [blank_node ''a''])"
  using absent_record_noop [of "''b''" "[blank_node ''a'']" "[''b'', ''c'']" Background 5 "''x''" 
      "''timeout''" True "[]" "\<lambda>_. []" "\<lparr>IP = None, PortDisc = 0, PortRLPx = 0, IPv6 = \<lparr>IP = None, PortDisc = 0, PortRLPx = 0\<rparr>\<rparr>"
      Background "''a''" "[]" 0 "[]"]
  by (simp add: find_node_def blank_node_def)

subsection \<open>Success resets the handshake backoff\<close>

lemma QueryContext_alive: "\<not> Done ctx \<Longrightarrow> QueryContext ctx q s = Inr (q s)"
  by (simp add: QueryContext_def)

lemma find_node_UpdateClientID:
  assumes "find_node i s = Some r" and "\<not> Done ctx"
  shows "find_node i (snd (UpdateClientID ctx now i clientID s)) =
           Some (r\<lparr>client_id := Some clientID, handshake_err := None,
                    handshake_try := 0, handshake_updated := Some (Unix now)\<rparr>)"
  using assms
  by (simp add: UpdateClientID_def ExecContext_alive sqlUpdateClientID_def find_node_sql_update)

text \<open>
  C6. For a record that exists, \<open>UpdateClientID\<close> returns no error and leaves the record
  with \<open>client_id\<close> set to the given string, \<open>handshake_err\<close> NULL, \<open>handshake_try\<close>
  0 and \<open>handshake_updated\<close> the Unix second of the call, all other columns as they
  were; \<open>FindHandshakeLastTry\<close> then reports no error, try count 0 and that second,
  whatever the try count was before.
\<close>

theorem UpdateClientID_resets_handshake:
  assumes "find_node i s = Some r" and "\<not> Done ctx" and "\<not> Done ctx'"
  shows "fst (UpdateClientID ctx now i clientID s) = None
       \<and> find_node i (snd (UpdateClientID ctx now i clientID s)) =
           Some (r\<lparr>client_id := Some clientID, handshake_err := None,
                    handshake_try := 0, handshake_updated := Some (Unix now)\<rparr>)
       \<and> FindHandshakeLastTry ctx' i (snd (UpdateClientID ctx now i clientID s)) =
           Inr (Some \<lparr>HasFailed = False, Try = 0, Time = Time_Unix (Unix now)\<rparr>)"
proof -
  have 1: "fst (UpdateClientID ctx now i clientID s) = None"
    using assms(2) by (simp add: UpdateClientID_def ExecContext_alive)
  note 2 = find_node_UpdateClientID [OF assms(1,2), of now clientID]
  have 3: "FindHandshakeLastTry ctx' i (snd (UpdateClientID ctx now i clientID s)) =
           Inr (Some \<lparr>HasFailed = False, Try = 0, Time = Time_Unix (Unix now)\<rparr>)"
    using assms(3)
    by (simp add: FindHandshakeLastTry_def QueryContext_alive sqlFindHandshakeLastTry_def 2
        scan_NullInt32_def)
  show ?thesis using 1 2 3 by simp
qed

theorem UpdateClientID_resets_handshake_witness:
  "FindHandshakeLastTry Background ''a''
     (snd (UpdateClientID Background 1700000000123456789 ''a'' ''foo''
        [(blank_node ''a'')\<lparr>handshake_err := Some ''timeout'', handshake_try := 1000,
                              handshake_updated := Some 1600000000\<rparr>]))
   = Inr (Some \<lparr>HasFailed = False, Try = 0, Time = 1700000000000000000\<rparr>)"
  using UpdateClientID_resets_handshake [of "''a''"
      "[(blank_node ''a'')\<lparr>handshake_err := Some ''timeout'', handshake_try := 1000,
                              handshake_updated := Some 1600000000\<rparr>]"
      "(blank_node ''a'')\<lparr>handshake_err := Some ''timeout'', handshake_try := 1000,
                              handshake_updated := Some 1600000000\<rparr>"
      Background Background 1700000000123456789 "''foo''"]
  by (simp add: find_node_def blank_node_def Unix_def Time_Unix_def)

subsection \<open>Neighbor bucket keys\<close>

lemma genSplit_comma_free:
  "CHR '','' \<notin> set x \<Longrightarrow> genSplit '','' cur x = [cur @ x]"
  by (induction x arbitrary: cur) auto

lemma genSplit_comma_cut:
  "CHR '','' \<notin> set x \<Longrightarrow>
     genSplit '','' cur (x @ CHR '','' # rest) = (cur @ x) # genSplit '','' [] rest"
  by (induction x arbitrary: cur) auto

lemma Split_Join_comma:
  assumes "keys \<noteq> []" and "\<forall>k \<in> set keys. CHR '','' \<notin> set k"
  shows "Split (Join keys '','') '','' = keys"
  using assms
proof (induction keys "'',''" rule: Join.induct)
  case 1
  then show ?case by simp
next
  case (2 x)
  then show ?case by (simp add: Split_def genSplit_comma_free)
next
  case (3 x y ys)
  then have "genSplit '','' [] (Join (y # ys) '','') = y # ys"
    by (simp add: Split_def)
  with 3 show ?case
    by (simp add: Split_def genSplit_comma_cut del: genSplit.simps)
qed

lemma find_node_UpdateNeighborBucketKeys:
  assumes "find_node i s = Some r" and "\<not> Done ctx"
  shows "find_node i (snd (UpdateNeighborBucketKeys ctx i keys s)) =
           Some (r\<lparr>neighbor_keys := Some (Join keys '','')\<rparr>)"
  using assms
  by (simp add: UpdateNeighborBucketKeys_def ExecContext_alive sqlUpdateNeighborBucketKeys_def
      find_node_sql_update)

text \<open>
  C8, as the code has it. The keys are stored joined by commas and read back by splitting
  at every comma, so the list comes back unchanged when it is not empty and none of its
  keys contains a comma; the stored value then replaces whatever the record held.
  \<open>FindNeighborBucketKeys\<close> returns nothing when the record is missing or its
  \<open>neighbor_keys\<close> is NULL.
\<close>

theorem neighbor_keys_roundtrip:
  assumes "find_node i s = Some r" and "\<not> Done ctx" and "\<not> Done ctx'"
    and "keys \<noteq> []" and "\<forall>k \<in> set keys. CHR '','' \<notin> set k"
  shows "fst (UpdateNeighborBucketKeys ctx i keys s) = None
       \<and> find_node i (snd (UpdateNeighborBucketKeys ctx i keys s)) =
            Some (r\<lparr>neighbor_keys := Some (Join keys '','')\<rparr>)
       \<and> FindNeighborBucketKeys ctx' i (snd (UpdateNeighborBucketKeys ctx i keys s)) =
            Inr (Some keys)
       \<and> (find_node j t = None \<longrightarrow> FindNeighborBucketKeys ctx' j t = Inr None)
       \<and> (find_node j t = Some q \<and> neighbor_keys q = None \<longrightarrow>
            FindNeighborBucketKeys ctx' j t = Inr None)"
proof -
  have 1: "fst (UpdateNeighborBucketKeys ctx i keys s) = None"
    using assms(2) by (simp add: UpdateNeighborBucketKeys_def ExecContext_alive)
  note 2 = find_node_UpdateNeighborBucketKeys [OF assms(1,2), of keys]
  have 3: "FindNeighborBucketKeys ctx' i (snd (UpdateNeighborBucketKeys ctx i keys s)) =
            Inr (Some keys)"
    using assms(3) Split_Join_comma [OF assms(4,5)]
    by (simp add: FindNeighborBucketKeys_def QueryContext_alive sqlFindNeighborBucketKeys_def 2)
  have 4: "find_node j t = None \<longrightarrow> FindNeighborBucketKeys ctx' j t = Inr None"
    using assms(3)
    by (simp add: FindNeighborBucketKeys_def QueryContext_alive sqlFindNeighborBucketKeys_def)
  have 5: "find_node j t = Some q \<and> neighbor_keys q = None \<longrightarrow>
            FindNeighborBucketKeys ctx' j t = Inr None"
    using assms(3)
    by (simp add: FindNeighborBucketKeys_def QueryContext_alive sqlFindNeighborBucketKeys_def)
  show ?thesis using 1 2 3 4 5 by blast
qed

theorem neighbor_keys_roundtrip_witness:
  "FindNeighborBucketKeys Background ''a''
     (snd (UpdateNeighborBucketKeys Background ''a'' [''k1'', ''k2'', '''']
        [(blank_node ''a'')\<lparr>neighbor_keys := Some ''old''\<rparr>]))
     = Inr (Some [''k1'', ''k2'', ''''])
   \<and> FindNeighborBucketKeys Background ''b'' [blank_node ''a''] = Inr None
   \<and> FindNeighborBucketKeys Background ''a'' [blank_node ''a''] = Inr None"
  using neighbor_keys_roundtrip [of "''a''" "[(blank_node ''a'')\<lparr>neighbor_keys := Some ''old''\<rparr>]"
      "(blank_node ''a'')\<lparr>neighbor_keys := Some ''old''\<rparr>" Background Background
      "[''k1'', ''k2'', '''']" "''b''" "[blank_node ''a'']" "blank_node ''a''"]
    neighbor_keys_roundtrip [of "''a''" "[(blank_node ''a'')\<lparr>neighbor_keys := Some ''old''\<rparr>]"
      "(blank_node ''a'')\<lparr>neighbor_keys := Some ''old''\<rparr>" Background Background
      "[''k1'', ''k2'', '''']" "''a''" "[blank_node ''a'']" "blank_node ''a''"]
  by (simp add: find_node_def blank_node_def)

theorem neighbor_keys_roundtrip_counterexample:
  "FindNeighborBucketKeys Background ''a''
     (snd (UpdateNeighborBucketKeys Background ''a'' [''x,y''] [blank_node ''a'']))
     = Inr (Some [''x'', ''y''])
   \<and> FindNeighborBucketKeys Background ''a''
     (snd (UpdateNeighborBucketKeys Background ''a'' [''x,y''] [blank_node ''a'']))
     \<noteq> Inr (Some [''x,y''])
   \<and> FindNeighborBucketKeys Background ''a''
     (snd (UpdateNeighborBucketKeys Background ''a'' [] [blank_node ''a'']))
     = Inr (Some [''''])
   \<and> FindNeighborBucketKeys Background ''a''
     (snd (UpdateNeighborBucketKeys Background ''a'' [] [blank_node ''a'']))
     \<noteq> Inr (Some [])"
  by (simp add: FindNeighborBucketKeys_def UpdateNeighborBucketKeys_def QueryContext_def
      ExecContext_def sqlFindNeighborBucketKeys_def sqlUpdateNeighborBucketKeys_def
      sql_update_def find_node_def blank_node_def Split_def)

subsection \<open>Address store round trip\<close>

lemma find_node_append:
  "find_node i (s @ t) = (case find_node i s of None \<Rightarrow> find_node i t | Some r \<Rightarrow> Some r)"
  by (induction s) (auto simp: find_node_def)

lemma find_node_sqlUpsertNodeAddr:
  "\<exists>r'. find_node i (sqlUpsertNodeAddr i a b c d e f g s) = Some r'
       \<and> ip r' = a \<and> port_disc r' = b \<and> port_rlpx r' = c
       \<and> ip_v6 r' = d \<and> ip_v6_port_disc r' = e \<and> ip_v6_port_rlpx r' = f
       \<and> addr_updated r' = g"
proof (cases "find_node i s")
  case None
  then have "i \<notin> set (map node_id s)" by (simp add: find_node_None_iff)
  moreover have "find_node i (s @ [r]) = Some r" if "node_id r = i" for r
    using None that by (simp add: find_node_append) (simp add: find_node_def)
  ultimately show ?thesis by (simp add: sqlUpsertNodeAddr_def)
next
  case (Some r)
  then have "i \<in> set (map node_id s)"
    using find_node_None_iff [of i s] by auto
  then show ?thesis
    using Some by (simp add: sqlUpsertNodeAddr_def find_node_sql_update)
qed

lemma scan_NullInt32_port:
  "scan_NullInt32 (if c then Some (uint (w :: 16 word)) else None)
     = Inr (if c then Some (uint w) else None)"
proof -
  have "uint w < 2 ^ 16" using uint_bounded [of w] by simp
  then have "uint w < 2 ^ 31" by simp
  moreover have "- (2 ^ 31) \<le> uint w"
  proof -
    have "- (2 ^ 31) \<le> (0::int)" by simp
    then show ?thesis using uint_ge_0 [of w] by (rule order_trans)
  qed
  ultimately show ?thesis by (simp add: scan_NullInt32_def)
qed

lemma port_of_stored:
  "port_of (if c \<and> w \<noteq> 0 then Some (uint (w :: 16 word)) else None) = (if c then w else 0)"
  by (simp add: port_of_def)


lemma parse_stored:
  assumes "\<forall>a. x = Some a \<longrightarrow> (\<exists>a'. P (S a) = Some a' \<and> E a' a)"
  shows "\<not> (map_option S x \<noteq> None \<and> P (the (map_option S x)) = None)
       \<and> (case x of None \<Rightarrow> Option.bind (map_option S x) P = None
           | Some a \<Rightarrow> \<exists>a'. Option.bind (map_option S x) P = Some a' \<and> E a' a)"
  using assms by (cases x) auto

lemma FindNodeAddr_row:
  assumes "\<not> Done ctx" and "find_node i s = Some r"
    and "port_disc r = (if c1 \<and> w1 \<noteq> 0 then Some (uint (w1 :: 16 word)) else None)"
    and "port_rlpx r = (if c1 \<and> w2 \<noteq> 0 then Some (uint (w2 :: 16 word)) else None)"
    and "ip_v6_port_disc r = (if c2 \<and> w3 \<noteq> 0 then Some (uint (w3 :: 16 word)) else None)"
    and "ip_v6_port_rlpx r = (if c2 \<and> w4 \<noteq> 0 then Some (uint (w4 :: 16 word)) else None)"
    and "\<not> (ip r \<noteq> None \<and> ParseIP (the (ip r)) = None)"
    and "\<not> (ip_v6 r \<noteq> None \<and> ParseIP (the (ip_v6 r)) = None)"
  shows "FindNodeAddr ParseIP ctx i s =
     Inr (Some \<lparr>IP = Option.bind (ip r) ParseIP,
                 PortDisc = (if c1 then w1 else 0),
                 PortRLPx = (if c1 then w2 else 0),
                 IPv6 = \<lparr>IP = Option.bind (ip_v6 r) ParseIP,
                         PortDisc = (if c2 then w3 else 0),
                         PortRLPx = (if c2 then w4 else 0)\<rparr>\<rparr>)"
proof -
  have q: "QueryContext ctx (find_node i) s = Inr (Some r)"
    using assms(1,2) by (simp add: QueryContext_def)
  have scans: "scan_NullInt32 (port_disc r) = Inr (port_disc r)"
    "scan_NullInt32 (port_rlpx r) = Inr (port_rlpx r)"
    "scan_NullInt32 (ip_v6_port_disc r) = Inr (ip_v6_port_disc r)"
    "scan_NullInt32 (ip_v6_port_rlpx r) = Inr (ip_v6_port_rlpx r)"
    unfolding assms(3-6) by (rule scan_NullInt32_port)+
  have ports: "port_of (port_disc r) = (if c1 then w1 else 0)"
    "port_of (port_rlpx r) = (if c1 then w2 else 0)"
    "port_of (ip_v6_port_disc r) = (if c2 then w3 else 0)"
    "port_of (ip_v6_port_rlpx r) = (if c2 then w4 else 0)"
    unfolding assms(3-6) by (rule port_of_stored)+
  show ?thesis
    unfolding FindNodeAddr_def q
    using assms(7,8) by (simp add: scans ports)
qed

text \<open>
  C7, as the code has it. The IPs are stored as the text \<^verbatim>\<open>net.IP.String\<close> gives and
  read back with \<^verbatim>\<open>net.ParseIP\<close>. For an address whose present IPs the codec reads
  back as equal (\<open>ParseIP (IP_String a)\<close> is an address \<open>IP_Equal\<close> to \<open>a\<close>),
  \<open>UpsertNodeAddr\<close> followed by \<open>FindNodeAddr\<close> returns an address whose two IPs equal
  those given (absent where they were absent) and whose ports are those given where the
  paired IP is present and 0 where it is absent. The row holds a port only when its
  paired IP is present and the port is not 0. A lookup of an id without a record
  returns nothing, not an empty address. An IP that is not nil and has neither 4 nor 16
  bytes is not read back: Go prints the empty one as \<^verbatim>\<open><nil>\<close> and the bytes 1 to 5 as
  \<^verbatim>\<open>?0102030405\<close>, parses neither text, and \<open>FindNodeAddr\<close> fails on the stored row.
\<close>

theorem address_roundtrip:
  assumes "\<not> Done ctx" and "\<not> Done ctx'"
    and "\<forall>a. IP addr = Some a \<longrightarrow> (\<exists>a'. ParseIP (IP_String a) = Some a' \<and> IP_Equal a' a)"
    and "\<forall>a. IP (IPv6 addr) = Some a \<longrightarrow> (\<exists>a'. ParseIP (IP_String a) = Some a' \<and> IP_Equal a' a)"
  shows "fst (UpsertNodeAddr IP_String ctx now i addr s) = None
       \<and> (\<exists>found.
            FindNodeAddr ParseIP ctx' i (snd (UpsertNodeAddr IP_String ctx now i addr s))
              = Inr (Some found)
          \<and> (case IP addr of None \<Rightarrow> IP found = None
              | Some a \<Rightarrow> \<exists>a'. IP found = Some a' \<and> IP_Equal a' a)
          \<and> PortDisc found = (if IP addr = None then 0 else PortDisc addr)
          \<and> PortRLPx found = (if IP addr = None then 0 else PortRLPx addr)
          \<and> (case IP (IPv6 addr) of None \<Rightarrow> IP (IPv6 found) = None
              | Some a \<Rightarrow> \<exists>a'. IP (IPv6 found) = Some a' \<and> IP_Equal a' a)
          \<and> PortDisc (IPv6 found) = (if IP (IPv6 addr) = None then 0 else PortDisc (IPv6 addr))
          \<and> PortRLPx (IPv6 found) = (if IP (IPv6 addr) = None then 0 else PortRLPx (IPv6 addr)))
       \<and> (\<exists>r. find_node i (snd (UpsertNodeAddr IP_String ctx now i addr s)) = Some r
          \<and> (port_disc r \<noteq> None \<longleftrightarrow> IP addr \<noteq> None \<and> PortDisc addr \<noteq> 0)
          \<and> (port_rlpx r \<noteq> None \<longleftrightarrow> IP addr \<noteq> None \<and> PortRLPx addr \<noteq> 0)
          \<and> (ip_v6_port_disc r \<noteq> None \<longleftrightarrow> IP (IPv6 addr) \<noteq> None \<and> PortDisc (IPv6 addr) \<noteq> 0)
          \<and> (ip_v6_port_rlpx r \<noteq> None \<longleftrightarrow> IP (IPv6 addr) \<noteq> None \<and> PortRLPx (IPv6 addr) \<noteq> 0))
       \<and> (find_node j t = None \<longrightarrow> FindNodeAddr ParseIP ctx' j t = Inr None)"
proof -
  define c1 where "c1 = (IP addr \<noteq> None)"
  define c2 where "c2 = (IP (IPv6 addr) \<noteq> None)"
  define pd where "pd = (if c1 \<and> PortDisc addr \<noteq> 0 then Some (uint (PortDisc addr)) else None)"
  define pr where "pr = (if c1 \<and> PortRLPx addr \<noteq> 0 then Some (uint (PortRLPx addr)) else None)"
  define pd6 where
    "pd6 = (if c2 \<and> PortDisc (IPv6 addr) \<noteq> 0 then Some (uint (PortDisc (IPv6 addr))) else None)"
  define pr6 where
    "pr6 = (if c2 \<and> PortRLPx (IPv6 addr) \<noteq> 0 then Some (uint (PortRLPx (IPv6 addr))) else None)"
  define s' where "s' = snd (UpsertNodeAddr IP_String ctx now i addr s)"
  have ok: "fst (UpsertNodeAddr IP_String ctx now i addr s) = None"
    using assms(1) by (simp add: UpsertNodeAddr_def Let_def ExecContext_alive)
  have s': "s' = sqlUpsertNodeAddr i (map_option IP_String (IP addr)) pd pr
                   (map_option IP_String (IP (IPv6 addr))) pd6 pr6 (Unix now) s"
    using assms(1)
    by (simp add: s'_def UpsertNodeAddr_def Let_def ExecContext_alive
        pd_def pr_def pd6_def pr6_def c1_def c2_def)
  obtain r where r: "find_node i s' = Some r"
    and cols: "ip r = map_option IP_String (IP addr)" "port_disc r = pd" "port_rlpx r = pr"
      "ip_v6 r = map_option IP_String (IP (IPv6 addr))" "ip_v6_port_disc r = pd6"
      "ip_v6_port_rlpx r = pr6"
    unfolding s' using find_node_sqlUpsertNodeAddr by blast
  note p4 = parse_stored [of "IP addr" ParseIP IP_String IP_Equal, OF assms(3)]
  note p6 = parse_stored [of "IP (IPv6 addr)" ParseIP IP_String IP_Equal, OF assms(4)]
  have found: "FindNodeAddr ParseIP ctx' i s' =
     Inr (Some \<lparr>IP = Option.bind (ip r) ParseIP,
                 PortDisc = (if c1 then PortDisc addr else 0),
                 PortRLPx = (if c1 then PortRLPx addr else 0),
                 IPv6 = \<lparr>IP = Option.bind (ip_v6 r) ParseIP,
                         PortDisc = (if c2 then PortDisc (IPv6 addr) else 0),
                         PortRLPx = (if c2 then PortRLPx (IPv6 addr) else 0)\<rparr>\<rparr>)"
  proof (rule FindNodeAddr_row [OF assms(2) r])
    show "port_disc r = (if c1 \<and> PortDisc addr \<noteq> 0 then Some (uint (PortDisc addr)) else None)"
      by (simp only: cols pd_def)
    show "port_rlpx r = (if c1 \<and> PortRLPx addr \<noteq> 0 then Some (uint (PortRLPx addr)) else None)"
      by (simp only: cols pr_def)
    show "ip_v6_port_disc r =
        (if c2 \<and> PortDisc (IPv6 addr) \<noteq> 0 then Some (uint (PortDisc (IPv6 addr))) else None)"
      by (simp only: cols pd6_def)
    show "ip_v6_port_rlpx r =
        (if c2 \<and> PortRLPx (IPv6 addr) \<noteq> 0 then Some (uint (PortRLPx (IPv6 addr))) else None)"
      by (simp only: cols pr6_def)
    show "\<not> (ip r \<noteq> None \<and> ParseIP (the (ip r)) = None)"
      unfolding cols using p4 by blast
    show "\<not> (ip_v6 r \<noteq> None \<and> ParseIP (the (ip_v6 r)) = None)"
      unfolding cols using p6 by blast
  qed
  have eq4: "case IP addr of None \<Rightarrow> Option.bind (ip r) ParseIP = None
              | Some a \<Rightarrow> \<exists>a'. Option.bind (ip r) ParseIP = Some a' \<and> IP_Equal a' a"
    unfolding cols using p4 by blast
  have eq6: "case IP (IPv6 addr) of None \<Rightarrow> Option.bind (ip_v6 r) ParseIP = None
              | Some a \<Rightarrow> \<exists>a'. Option.bind (ip_v6 r) ParseIP = Some a' \<and> IP_Equal a' a"
    unfolding cols using p6 by blast
  have A: "\<exists>found.
            FindNodeAddr ParseIP ctx' i s' = Inr (Some found)
          \<and> (case IP addr of None \<Rightarrow> IP found = None
              | Some a \<Rightarrow> \<exists>a'. IP found = Some a' \<and> IP_Equal a' a)
          \<and> PortDisc found = (if IP addr = None then 0 else PortDisc addr)
          \<and> PortRLPx found = (if IP addr = None then 0 else PortRLPx addr)
          \<and> (case IP (IPv6 addr) of None \<Rightarrow> IP (IPv6 found) = None
              | Some a \<Rightarrow> \<exists>a'. IP (IPv6 found) = Some a' \<and> IP_Equal a' a)
          \<and> PortDisc (IPv6 found) = (if IP (IPv6 addr) = None then 0 else PortDisc (IPv6 addr))
          \<and> PortRLPx (IPv6 found) = (if IP (IPv6 addr) = None then 0 else PortRLPx (IPv6 addr))"
    unfolding found using eq4 eq6
    by (cases "IP addr"; cases "IP (IPv6 addr)") (simp_all add: c1_def c2_def)
  have B: "\<exists>r. find_node i s' = Some r
          \<and> (port_disc r \<noteq> None \<longleftrightarrow> IP addr \<noteq> None \<and> PortDisc addr \<noteq> 0)
          \<and> (port_rlpx r \<noteq> None \<longleftrightarrow> IP addr \<noteq> None \<and> PortRLPx addr \<noteq> 0)
          \<and> (ip_v6_port_disc r \<noteq> None \<longleftrightarrow> IP (IPv6 addr) \<noteq> None \<and> PortDisc (IPv6 addr) \<noteq> 0)
          \<and> (ip_v6_port_rlpx r \<noteq> None \<longleftrightarrow> IP (IPv6 addr) \<noteq> None \<and> PortRLPx (IPv6 addr) \<noteq> 0)"
    using r cols by (simp add: pd_def pr_def pd6_def pr6_def c1_def c2_def)
  have C: "find_node j t = None \<longrightarrow> FindNodeAddr ParseIP ctx' j t = Inr None"
    using assms(2) by (simp add: FindNodeAddr_def QueryContext_def)
  show ?thesis using ok A B C unfolding s'_def by blast
qed


theorem address_roundtrip_witness:
  "\<exists>found.
     FindNodeAddr
       (\<lambda>str. if str = ''192.168.0.1''
               then Some [0, 0, 0, 0, 0, 0, 0, 0, 0, 0, 255, 255, 192, 168, 0, 1] else None)
       Background ''a''
       (snd (UpsertNodeAddr (\<lambda>a. if a = [192, 168, 0, 1] then ''192.168.0.1'' else ''?'')
          Background 1700000000000000000 ''a''
          \<lparr>IP = Some [192, 168, 0, 1], PortDisc = 30303, PortRLPx = 0,
           IPv6 = \<lparr>IP = None, PortDisc = 30304, PortRLPx = 9\<rparr>\<rparr> []))
       = Inr (Some found)
     \<and> (\<exists>a'. IP found = Some a' \<and> IP_Equal a' [192, 168, 0, 1])
     \<and> PortDisc found = 30303 \<and> PortRLPx found = 0
     \<and> IP (IPv6 found) = None \<and> PortDisc (IPv6 found) = 0 \<and> PortRLPx (IPv6 found) = 0"
  using address_roundtrip [of Background Background
      "\<lparr>IP = Some [192, 168, 0, 1], PortDisc = 30303, PortRLPx = 0,
           IPv6 = \<lparr>IP = None, PortDisc = 30304, PortRLPx = 9\<rparr>\<rparr>"
      "\<lambda>str. if str = ''192.168.0.1''
               then Some [0, 0, 0, 0, 0, 0, 0, 0, 0, 0, 255, 255, 192, 168, 0, 1] else None"
      "\<lambda>a. if a = [192, 168, 0, 1] then ''192.168.0.1'' else ''?''"
      1700000000000000000 "''a''" "[]" "''b''" "[]"]
  by (simp add: IP_Equal_def v4InV6Prefix_def)

theorem address_roundtrip_counterexample:
  "fst (UpsertNodeAddr
          (\<lambda>a. if a = [192, 168, 0, 1] then ''192.168.0.1''
                else if a = [1, 2, 3, 4, 5] then ''?0102030405'' else ''<nil>'')
          Background 1700000000000000000 ''a''
          \<lparr>IP = Some [], PortDisc = 30303, PortRLPx = 30303,
           IPv6 = \<lparr>IP = None, PortDisc = 0, PortRLPx = 0\<rparr>\<rparr> []) = None
   \<and> FindNodeAddr
       (\<lambda>str. if str = ''192.168.0.1''
               then Some [0, 0, 0, 0, 0, 0, 0, 0, 0, 0, 255, 255, 192, 168, 0, 1] else None)
       Background ''a''
       (snd (UpsertNodeAddr
          (\<lambda>a. if a = [192, 168, 0, 1] then ''192.168.0.1''
                else if a = [1, 2, 3, 4, 5] then ''?0102030405'' else ''<nil>'')
          Background 1700000000000000000 ''a''
          \<lparr>IP = Some [], PortDisc = 30303, PortRLPx = 30303,
           IPv6 = \<lparr>IP = None, PortDisc = 0, PortRLPx = 0\<rparr>\<rparr> []))
     = Inl (ErrorString ''FindNodeAddr failed to parse IP'')
   \<and> FindNodeAddr
       (\<lambda>str. if str = ''192.168.0.1''
               then Some [0, 0, 0, 0, 0, 0, 0, 0, 0, 0, 255, 255, 192, 168, 0, 1] else None)
       Background ''a''
       (snd (UpsertNodeAddr
          (\<lambda>a. if a = [192, 168, 0, 1] then ''192.168.0.1''
                else if a = [1, 2, 3, 4, 5] then ''?0102030405'' else ''<nil>'')
          Background 1700000000000000000 ''a''
          \<lparr>IP = Some [192, 168, 0, 1], PortDisc = 30303, PortRLPx = 30303,
           IPv6 = \<lparr>IP = Some [1, 2, 3, 4, 5], PortDisc = 30303, PortRLPx = 0\<rparr>\<rparr> []))
     = Inl (ErrorString ''FindNodeAddr failed to parse IPv6'')"
  by (simp add: UpsertNodeAddr_def ExecContext_def sqlUpsertNodeAddr_def
      FindNodeAddr_def QueryContext_def find_node_def scan_NullInt32_def)

subsection \<open>Handshake candidates\<close>

lemma read_ids_append: "read_ids acc cursor = acc @ cursor"
  by (induction cursor arbitrary: acc) auto



lemma sql_select_subset:
  "set (sql_select cond col lim s) \<subseteq> {r \<in> set s. cond r = Some True}"
  by (auto simp: sql_select_def dest: in_set_takeD)




lemma sql_and_Some: "sql_and (Some a) (Some b) = Some (a \<and> b)"
  by (cases a; cases b) simp_all

lemma sql_or_Some: "sql_or (Some a) (Some b) = Some (a \<or> b)"
  by (cases a; cases b) simp_all

lemma sql_and_None: "sql_and (Some a) None = (if a then None else Some False)"
  "sql_and None (Some a) = (if a then None else Some False)"
  by (cases a; simp)+

lemma sql_or_None: "sql_or (Some a) None = (if a then Some True else None)"
  "sql_or None (Some a) = (if a then Some True else None)"
  by (cases a; simp)+





lemma sql_lt_second_before:
  "sql_lt v (Unix (Add now (- d))) = map_option (second_before now d) v"
  by (cases v) (simp_all add: sql_lt_def second_before_def)

lemma where_fork: "sql_or (sql_eq (compat_fork r) 1) (sql_is_null (compat_fork r))
    = Some (fork_compatible_or_unknown r)"
  by (cases "compat_fork r")
     (simp_all add: sql_eq_def sql_is_null_def fork_compatible_or_unknown_def sql_or_Some sql_or_None)

lemma where_tries: "sql_or (sql_le (handshake_try r) (int m)) (sql_eq (handshake_err r) tag)
    = (if handshake_tries_allowed m tag r then Some True
       else if handshake_err r = None then None else Some False)"
  by (cases "handshake_err r")
     (auto simp: sql_eq_def sql_le_def handshake_tries_allowed_def sql_or_Some sql_or_None)

lemma where_quiet:
  "sql_or
     (sql_or
        (sql_is_null (handshake_updated r))
        (sql_and (sql_lt (handshake_updated r) (Unix (Add now1 (- dOK))))
                 (sql_is_null (handshake_err r))))
     (sql_and (sql_lt (handshake_updated r) (Unix (Add now2 (- dErr))))
              (sql_is_not_null (handshake_err r)))
   = Some (handshake_quiet_seconds now1 now2 dOK dErr r)"
  by (cases "handshake_updated r"; cases "handshake_err r")
     (auto simp: sql_lt_second_before sql_is_null_def sql_is_not_null_def
        handshake_quiet_seconds_def sql_or_Some sql_and_Some sql_or_None sql_and_None)

lemma whereFindHandshakeCandidates_iff:
  "whereFindHandshakeCandidates (Unix (Add now1 (- dOK))) (Unix (Add now2 (- dErr)))
       (int maxTries) tag r = Some True
   \<longleftrightarrow> handshake_candidate_seconds now1 now2 dOK dErr maxTries tag r"
  unfolding whereFindHandshakeCandidates_def where_quiet where_fork where_tries
  by (auto simp: handshake_candidate_seconds_def sql_and_Some sql_and_None)

lemma filter_whereFindHandshakeCandidates:
  "filter (\<lambda>r. whereFindHandshakeCandidates (Unix (Add now1 (- dOK))) (Unix (Add now2 (- dErr)))
       (int maxTries) tag r = Some True) s
   = filter (handshake_candidate_seconds now1 now2 dOK dErr maxTries tag) s"
  by (simp only: whereFindHandshakeCandidates_iff)




lemma FindHandshakeCandidates_rows:
  assumes "\<not> Done ctx"
  shows "FindHandshakeCandidates ctx now1 now2 dOK dErr maxTries tag lim s =
     Inr (map node_id (sqlFindHandshakeCandidates_rows (Unix (Add now1 (- dOK)))
            (Unix (Add now2 (- dErr))) (int maxTries) tag lim s))"
  using assms
  by (simp add: FindHandshakeCandidates_def Let_def QueryContext_def read_ids_append
      sqlFindHandshakeCandidates_def)


lemma example_handshake_candidates:
  "FindHandshakeCandidates Background 1700000000500000000 1700000000500000001
         3600000000000 60000000000 2 ''timeout'' 10 example_nodes
       = Inr [''a'', ''f'', ''b'']"
  by (simp add: FindHandshakeCandidates_def QueryContext_def sqlFindHandshakeCandidates_def
      sqlFindHandshakeCandidates_rows_def sql_select_def whereFindHandshakeCandidates_def
      sql_is_null_def sql_is_not_null_def sql_lt_def sql_le_def sql_eq_def
      example_nodes_def blank_node_def Add_def Unix_def less_eq_option_def)



subsection \<open>Incompatible forks\<close>

lemma sql_and_False_right: "sql_and x (Some False) = Some False"
  by (cases x) (simp_all add: sql_and_Some)

lemma sql_and_False_left: "sql_and (Some False) x = Some False"
  by simp

lemma incompatible_fork: "compat_fork r = Some 0 \<Longrightarrow> \<not> fork_compatible_or_unknown r"
  by (simp add: fork_compatible_or_unknown_def)

lemma whereFindHandshakeCandidates_incompatible:
  "compat_fork r = Some 0 \<Longrightarrow> whereFindHandshakeCandidates a b c d r = Some False"
  unfolding whereFindHandshakeCandidates_def where_fork
  by (simp add: incompatible_fork sql_and_False_right)

lemma whereFindCandidates_incompatible:
  "compat_fork r = Some 0 \<Longrightarrow> whereFindCandidates a b c d r = Some False"
  unfolding whereFindCandidates_def where_fork
  by (simp add: incompatible_fork sql_and_False_right)

lemma primary_key_unique:
  "primary_key s \<Longrightarrow> r \<in> set s \<Longrightarrow> q \<in> set s \<Longrightarrow> node_id q = node_id r \<Longrightarrow> q = r"
  unfolding primary_key_def by (meson distinct_map inj_onD)

lemma FindCandidates_rows:
  assumes "\<not> Done ctx"
  shows "FindCandidates ctx now d maxPing maxTries tag lim s =
     Inr (map node_id (sqlFindCandidates_rows (Unix (Add now (- d)))
            (int maxPing) (int maxTries) tag lim s))"
  using assms
  by (simp add: FindCandidates_def Let_def QueryContext_def read_ids_append sqlFindCandidates_def)

lemma FindCandidates_done: "Done ctx \<Longrightarrow> \<exists>e. FindCandidates ctx now d maxPing maxTries tag lim s = Inl e"
  by (simp add: FindCandidates_def Let_def QueryContext_def)

lemma FindHandshakeCandidates_done:
  "Done ctx \<Longrightarrow> \<exists>e. FindHandshakeCandidates ctx now1 now2 dOK dErr maxTries tag lim s = Inl e"
  by (simp add: FindHandshakeCandidates_def Let_def QueryContext_def)

lemma select_excludes:
  assumes "\<forall>q \<in> set s. node_id q = i \<longrightarrow> cond q \<noteq> Some True"
  shows "i \<notin> set (map node_id (sql_select cond col lim s))"
  using assms sql_select_subset [of cond col lim s] by auto

lemma FindHandshakeCandidates_excludes:
  assumes "\<forall>q \<in> set s. node_id q = i \<longrightarrow>
     whereFindHandshakeCandidates (Unix (Add now1 (- dOK))) (Unix (Add now2 (- dErr)))
       (int maxTries) tag q \<noteq> Some True"
    and "FindHandshakeCandidates ctx now1 now2 dOK dErr maxTries tag lim s = Inr ids"
  shows "i \<notin> set ids"
proof (cases "Done ctx")
  case True
  then show ?thesis using FindHandshakeCandidates_done [OF True] assms(2) by (metis Inl_Inr_False)
next
  case False
  then show ?thesis
    using assms(2) select_excludes [OF assms(1)]
    unfolding FindHandshakeCandidates_rows [OF False] sqlFindHandshakeCandidates_rows_def
    by auto
qed

lemma FindCandidates_excludes:
  assumes "\<forall>q \<in> set s. node_id q = i \<longrightarrow>
     whereFindCandidates (Unix (Add now (- d))) (int maxPing) (int maxTries) tag q \<noteq> Some True"
    and "FindCandidates ctx now d maxPing maxTries tag lim s = Inr ids"
  shows "i \<notin> set ids"
proof (cases "Done ctx")
  case True
  then show ?thesis using FindCandidates_done [OF True] assms(2) by (metis Inl_Inr_False)
next
  case False
  then show ?thesis
    using assms(2) select_excludes [OF assms(1)]
    unfolding FindCandidates_rows [OF False] sqlFindCandidates_rows_def
    by auto
qed

lemma in_sql_update:
  "q \<in> set (sql_update cond f s) \<Longrightarrow> \<exists>r \<in> set s. (cond r \<and> q = f r) \<or> (\<not> cond r \<and> q = r)"
  unfolding sql_update_def by (induction s) (auto split: if_splits)

lemma UpdateForkCompatibility_False:
  assumes "\<not> Done ctx" and "q \<in> set (snd (UpdateForkCompatibility ctx now i False s))"
    and "node_id q = i"
  shows "compat_fork q = Some 0"
proof -
  define f where "f = (\<lambda>r::node. r\<lparr>compat_fork := Some (0::int), compat_fork_updated := Some (Unix now)\<rparr>)"
  have "snd (UpdateForkCompatibility ctx now i False s) = sql_update (\<lambda>r. node_id r = i) f s"
    using assms(1)
    by (simp add: UpdateForkCompatibility_def Let_def ExecContext_alive
        sqlUpdateForkCompatibility_def f_def)
  then have "q \<in> set (sql_update (\<lambda>r. node_id r = i) f s)"
    using assms(2) by simp
  from in_sql_update [OF this] obtain r where
    r: "(node_id r = i \<and> q = f r) \<or> (node_id r \<noteq> i \<and> q = r)" by blast
  show ?thesis
  proof (cases "node_id r = i")
    case True
    with r have "q = f r" by blast
    then show ?thesis by (simp add: f_def)
  next
    case False
    with r have "q = r" by blast
    with False assms(3) show ?thesis by simp
  qed
qed

text \<open>
  C4. In a table that respects the primary key, a record whose \<open>compat_fork\<close> is 0
  (incompatible) has its id in no result of \<open>FindHandshakeCandidates\<close> and in no result
  of \<open>FindCandidates\<close>, whatever its other columns and whatever the arguments of the
  query; and 0 is what \<open>UpdateForkCompatibility(id, false)\<close> writes.
\<close>

theorem incompatible_never_candidate:
  assumes "primary_key s" and "r \<in> set s" and "compat_fork r = Some 0"
  shows "(\<forall>ids. FindHandshakeCandidates ctx now1 now2 dOK dErr maxTries tag lim s = Inr ids
            \<longrightarrow> node_id r \<notin> set ids)
       \<and> (\<forall>ids. FindCandidates ctx' now d maxPing maxTries' tag' lim' s = Inr ids
            \<longrightarrow> node_id r \<notin> set ids)
       \<and> (\<not> Done ctx'' \<longrightarrow>
            (\<forall>q \<in> set (snd (UpdateForkCompatibility ctx'' now' i False t)).
               node_id q = i \<longrightarrow> compat_fork q = Some 0))"
proof (intro conjI allI impI ballI)
  have same: "q = r" if "q \<in> set s" and "node_id q = node_id r" for q
    using primary_key_unique [OF assms(1,2) that] .
  have 1: "\<forall>q \<in> set s. node_id q = node_id r \<longrightarrow>
     whereFindHandshakeCandidates (Unix (Add now1 (- dOK))) (Unix (Add now2 (- dErr)))
       (int maxTries) tag q \<noteq> Some True"
  proof (intro ballI impI)
    fix q assume "q \<in> set s" and "node_id q = node_id r"
    then have "q = r" by (rule same)
    then show "whereFindHandshakeCandidates (Unix (Add now1 (- dOK))) (Unix (Add now2 (- dErr)))
       (int maxTries) tag q \<noteq> Some True"
      using whereFindHandshakeCandidates_incompatible [OF assms(3)] by simp
  qed
  have 2: "\<forall>q \<in> set s. node_id q = node_id r \<longrightarrow>
     whereFindCandidates (Unix (Add now (- d))) (int maxPing) (int maxTries') tag' q \<noteq> Some True"
  proof (intro ballI impI)
    fix q assume "q \<in> set s" and "node_id q = node_id r"
    then have "q = r" by (rule same)
    then show "whereFindCandidates (Unix (Add now (- d))) (int maxPing) (int maxTries') tag' q
        \<noteq> Some True"
      using whereFindCandidates_incompatible [OF assms(3)] by simp
  qed
  show "node_id r \<notin> set ids"
    if "FindHandshakeCandidates ctx now1 now2 dOK dErr maxTries tag lim s = Inr ids" for ids
    using FindHandshakeCandidates_excludes [OF 1 that] .
  show "node_id r \<notin> set ids"
    if "FindCandidates ctx' now d maxPing maxTries' tag' lim' s = Inr ids" for ids
    using FindCandidates_excludes [OF 2 that] .
  show "compat_fork q = Some 0"
    if "\<not> Done ctx''" and "q \<in> set (snd (UpdateForkCompatibility ctx'' now' i False t))"
      and "node_id q = i" for q
    using UpdateForkCompatibility_False [OF that] .
qed

lemma example_nodes_primary_key: "primary_key example_nodes"
  by (simp add: primary_key_def example_nodes_def blank_node_def)

theorem incompatible_never_candidate_witness:
  "primary_key example_nodes
   \<and> (blank_node ''c'')\<lparr>compat_fork := Some 0\<rparr> \<in> set example_nodes
   \<and> ''c'' \<notin> set [''a'', ''f'', ''b'']
   \<and> FindHandshakeCandidates Background 1700000000500000000 1700000000500000001
         3600000000000 60000000000 2 ''timeout'' 10 example_nodes = Inr [''a'', ''f'', ''b'']"
proof -
  have r: "(blank_node ''c'')\<lparr>compat_fork := Some 0\<rparr> \<in> set example_nodes"
    by (simp add: example_nodes_def)
  have c: "compat_fork ((blank_node ''c'')\<lparr>compat_fork := Some 0\<rparr>) = Some 0" by simp
  have n: "node_id ((blank_node ''c'')\<lparr>compat_fork := Some 0\<rparr>) = ''c''"
    by (simp add: blank_node_def)
  note th = incompatible_never_candidate [OF example_nodes_primary_key r c,
      of Background 1700000000500000000 1700000000500000001
         3600000000000 60000000000 2 "''timeout''" 10]
  have "''c'' \<notin> set [''a'', ''f'', ''b'']"
    using th [THEN conjunct1, rule_format, OF example_handshake_candidates]
    unfolding n .
  then show ?thesis
    by (intro conjI example_nodes_primary_key r example_handshake_candidates)
qed

subsection \<open>Claim cooldown\<close>











subsection \<open>The claim mechanism\<close>

lemma TakeCandidates_commit_failure:
  assumes "sqlFindCandidates (Unix (Add nowFind (- d))) (int maxPing) (int maxTries) tag lim s \<noteq> []"
  shows "TakeCandidates (DoneAfter 3) nowFind nowMark d maxPing maxTries tag lim s =
     (Inl (Wrap ''TakeCandidates failed to commit transaction'' ContextDone),
      sqlMarkTakenNodes (Unix nowMark)
        (sqlFindCandidates (Unix (Add nowFind (- d))) (int maxPing) (int maxTries) tag lim s) s)"
  using assms
  by (simp add: TakeCandidates_def BeginTx_def FindCandidates_def Let_def QueryContext_def
      read_ids_append MarkTakenNodes_def ExecContext_def Commit_def)

lemma TakeHandshakeCandidates_commit_failure:
  assumes "sqlFindHandshakeCandidates (Unix (Add now1 (- dOK))) (Unix (Add now2 (- dErr)))
             (int maxTries) tag lim s \<noteq> []"
  shows "TakeHandshakeCandidates (DoneAfter 3) now1 now2 nowMark dOK dErr maxTries tag lim s =
     (Inl (Wrap ''TakeHandshakeCandidates failed to commit transaction'' ContextDone),
      sqlMarkTakenHandshakeCandidates (Unix nowMark)
        (sqlFindHandshakeCandidates (Unix (Add now1 (- dOK))) (Unix (Add now2 (- dErr)))
             (int maxTries) tag lim s) s)"
  using assms
  by (simp add: TakeHandshakeCandidates_def BeginTx_def FindHandshakeCandidates_def Let_def
      QueryContext_def read_ids_append MarkTakenHandshakeCandidates_def ExecContext_def Commit_def)

text \<open>
  C1 fails on the code. The table holds one eligible node and the caller's context ends
  after the third storage call, that is after the update of the Mark step and before
  \<^verbatim>\<open>tx.Commit()\<close>. Both methods return the commit error, and the node stays marked:
  the Find and Mark steps ran on the \<^verbatim>\<open>sql.DB\<close> handle, not on \<open>tx\<close>, so there was
  nothing for the failed commit to undo.
\<close>

theorem Take_not_atomic:
  "TakeCandidates (DoneAfter 3) 1700000000000000000 1700000000000000001
       60000000000 10 10 ''x'' 10 [blank_node ''a'']
     = (Inl (Wrap ''TakeCandidates failed to commit transaction'' ContextDone),
        [(blank_node ''a'')\<lparr>taken_last := Some 1700000000\<rparr>])
   \<and> TakeHandshakeCandidates (DoneAfter 3) 1700000000000000000 1700000000000000001
       1700000000000000002 3600000000000 60000000000 10 ''x'' 10 [blank_node ''a'']
     = (Inl (Wrap ''TakeHandshakeCandidates failed to commit transaction'' ContextDone),
        [(blank_node ''a'')\<lparr>handshake_err := Some ''taken'',
                               handshake_updated := Some 1700000000\<rparr>])"
  by (simp add: TakeCandidates_def TakeHandshakeCandidates_def BeginTx_def Commit_def
      FindCandidates_def FindHandshakeCandidates_def QueryContext_def
      MarkTakenNodes_def MarkTakenHandshakeCandidates_def ExecContext_def
      sqlFindCandidates_def sqlFindCandidates_rows_def sqlFindHandshakeCandidates_def
      sqlFindHandshakeCandidates_rows_def sql_select_def whereFindCandidates_def
      whereFindHandshakeCandidates_def whereTakenLast_def sqlMarkTakenNodes_def
      sqlMarkTakenHandshakeCandidates_def sql_update_def
      sql_is_null_def sql_is_not_null_def sql_lt_def sql_le_def sql_eq_def
      Add_def Unix_def blank_node_def)

lemma take_steps_TakeCandidates:
  "run_takes a b [A, A, A, A] (Called, sb, s) =
     (case TakeCandidates (arg_ctx a) (arg_nowFind a) (arg_nowMark a) (arg_minUnusedDuration a)
             (arg_maxPingTries a) (arg_maxHandshakeTries a) (arg_transientHandshakeErr a)
             (arg_limit a) s of
        (res, s') \<Rightarrow> (Returned res, sb, s'))"
  by (simp add: TakeCandidates_def Rollback_def split: sum.splits prod.splits option.splits)

text \<open>
  C2 fails on the code. Two calls with the same filters on a table with one eligible
  node, their storage calls served in turn: both queries run before either update, and
  both calls return the node. Served one call after the other, the second call finds
  nothing.
\<close>

theorem concurrent_TakeCandidates_overlap:
  "run_takes (example_take_args 1700000000000000000 1700000000000000003)
             (example_take_args 1700000000000000001 1700000000000000004)
             [A, B, A, B, A, B, A, B] (Called, Called, [blank_node ''a''])
     = (Returned (Inr [''a'']), Returned (Inr [''a'']),
        [(blank_node ''a'')\<lparr>taken_last := Some 1700000000\<rparr>])
   \<and> returned_ids (Returned (Inr [''a''])) \<inter> returned_ids (Returned (Inr [''a''])) = {''a''}
   \<and> run_takes (example_take_args 1700000000000000000 1700000000000000003)
             (example_take_args 1700000000000000005 1700000000000000006)
             [A, A, A, A, B, B, B, B] (Called, Called, [blank_node ''a''])
     = (Returned (Inr [''a'']), Returned (Inr []),
        [(blank_node ''a'')\<lparr>taken_last := Some 1700000000\<rparr>])"
  by (simp add: example_take_args_def returned_ids_def BeginTx_def Commit_def
      FindCandidates_def QueryContext_def MarkTakenNodes_def ExecContext_def
      sqlFindCandidates_def sqlFindCandidates_rows_def sql_select_def whereFindCandidates_def
      whereTakenLast_def sqlMarkTakenNodes_def sql_update_def
      sql_is_null_def sql_lt_def sql_le_def sql_eq_def
      Add_def Unix_def blank_node_def)

subsection \<open>The primary key is kept\<close>

lemma primary_key_same_ids:
  "map node_id s' = map node_id s \<Longrightarrow> primary_key s \<Longrightarrow> primary_key s'"
  by (simp add: primary_key_def)

lemma primary_key_sqlUpsertNodeAddr:
  assumes "primary_key s"
  shows "primary_key (sqlUpsertNodeAddr i a b c d e f g s)"
proof (cases "i \<in> set (map node_id s)")
  case True
  then have "sqlUpsertNodeAddr i a b c d e f g s = sql_update (\<lambda>r. node_id r = i)
             (\<lambda>r. r\<lparr>ip := a, port_disc := b, port_rlpx := c,
                     ip_v6 := d, ip_v6_port_disc := e,
                     ip_v6_port_rlpx := f, addr_updated := g\<rparr>) s"
    by (simp only: sqlUpsertNodeAddr_def if_True)
  moreover have "map node_id (sql_update (\<lambda>r. node_id r = i)
             (\<lambda>r. r\<lparr>ip := a, port_disc := b, port_rlpx := c,
                     ip_v6 := d, ip_v6_port_disc := e,
                     ip_v6_port_rlpx := f, addr_updated := g\<rparr>) s) = map node_id s"
    by (rule node_id_sql_update) simp
  ultimately show ?thesis using assms by (simp only: primary_key_def)
next
  case False
  then show ?thesis
    using assms by (simp add: sqlUpsertNodeAddr_def primary_key_def)
qed

lemma primary_key_UpsertNodeAddr:
  assumes "primary_key s"
  shows "primary_key (snd (UpsertNodeAddr IP_String ctx now i addr s))"
proof (cases "Done ctx")
  case True
  then show ?thesis
    using assms by (simp add: UpsertNodeAddr_def Let_def ExecContext_done)
next
  case False
  then obtain a b c d e f g where
    "snd (UpsertNodeAddr IP_String ctx now i addr s) = sqlUpsertNodeAddr i a b c d e f g s"
    using snd_UpsertNodeAddr by blast
  then show ?thesis using primary_key_sqlUpsertNodeAddr [OF assms] by simp
qed

lemma primary_key_updates:
  assumes "primary_key s"
  shows "primary_key (snd (ResetPingError ctx i s))"
    and "primary_key (snd (UpdatePingError ctx i s))"
    and "primary_key (snd (UpdateClientID ctx now i clientID s))"
    and "primary_key (snd (UpdateHandshakeError ctx now i handshakeErr s))"
    and "primary_key (snd (UpdateForkCompatibility ctx now i isCompatFork s))"
    and "primary_key (snd (UpdateNeighborBucketKeys ctx i keys s))"
    and "primary_key (snd (MarkTakenNodes ctx now ids s))"
    and "primary_key (snd (MarkTakenHandshakeCandidates ctx now ids s))"
  using assms
  by (rule primary_key_same_ids [rotated], simp only: node_ids_single_updates node_ids_marks)+

subsection \<open>The scenario of the spec\<close>

lemma blank_node_upsert:
  "snd (UpsertNodeAddr IP_String Background 0 i
          \<lparr>IP = None, PortDisc = p1, PortRLPx = p2,
           IPv6 = \<lparr>IP = None, PortDisc = p3, PortRLPx = p4\<rparr>\<rparr> [])
     = [blank_node i]"
  by (simp add: UpsertNodeAddr_def ExecContext_def sqlUpsertNodeAddr_def blank_node_def Unix_def)

lemma spec_scenario:
  "FindHandshakeLastTry Background ''A'' three_timeouts
     = Inr (Some \<lparr>HasFailed = True, Try = 3, Time = 1700000000000000000\<rparr>)"
  "FindHandshakeCandidates Background 1700000100000000000 1700000100000000000
       3600000000000 60000000000 2 ''timeout'' 10 three_timeouts = Inr [''A'']"
  "FindHandshakeCandidates Background 1700000100000000000 1700000100000000000
       3600000000000 60000000000 2 ''other'' 10 three_timeouts = Inr []"
  by (simp_all add: three_timeouts_def UpdateHandshakeError_def ExecContext_def
      sqlUpdateHandshakeError_def sql_update_def FindHandshakeLastTry_def QueryContext_def
      sqlFindHandshakeLastTry_def find_node_def scan_NullInt32_def Time_Unix_def
      FindHandshakeCandidates_def sqlFindHandshakeCandidates_def
      sqlFindHandshakeCandidates_rows_def sql_select_def whereFindHandshakeCandidates_def
      sql_is_null_def sql_is_not_null_def sql_lt_def sql_le_def sql_eq_def
      Add_def Unix_def blank_node_def)

end
